theory Spec2Isabelle
  imports
    Main
    "HOL-Library.Char_ord"
    "HOL-Library.List_Lexorder"
    "HOL-Library.Product_Lexorder"
    "HOL-Library.Monad_Syntax"
begin

section \<open>Text helpers\<close>

text \<open>
  Decimal digits as characters. \<open>pad n k\<close> is Python's \<^verbatim>\<open>"%0nd" % k\<close> for \<open>k < 10 ^ n\<close>
  (the only arguments the date and time fields of a datetime can give it), and
  \<open>num\<close> reads a non-empty run of ASCII digits back, as the C implementation of
  \<^verbatim>\<open>datetime.fromisoformat\<close> does.
\<close>

definition digit_char :: "nat \<Rightarrow> char" where
  "digit_char d = char_of (48 + d)"

definition is_digit :: "char \<Rightarrow> bool" where
  "is_digit c = (48 \<le> (of_char c :: nat) \<and> (of_char c :: nat) \<le> 57)"

definition digit_val :: "char \<Rightarrow> nat" where
  "digit_val c = of_char c - 48"

fun pad :: "nat \<Rightarrow> nat \<Rightarrow> string" where
  "pad 0 k = []"
| "pad (Suc n) k = pad n (k div 10) @ [digit_char (k mod 10)]"

definition num :: "string \<Rightarrow> nat option" where
  "num s = (if s \<noteq> [] \<and> list_all is_digit s
            then Some (foldl (\<lambda>a c. 10 * a + digit_val c) 0 s) else None)"

definition take_num :: "nat \<Rightarrow> string \<Rightarrow> (nat \<times> string) option" where
  "take_num n s = (if length s < n then None
                   else map_option (\<lambda>v. (v, drop n s)) (num (take n s)))"

definition expect :: "char \<Rightarrow> string \<Rightarrow> string option" where
  "expect c s = (case s of [] \<Rightarrow> None | x # r \<Rightarrow> if x = c then Some r else None)"

text \<open>Python's \<^verbatim>\<open>str(n)\<close> for a natural number.\<close>

fun str_nat :: "nat \<Rightarrow> string" where
  "str_nat n = (if n < 10 then [digit_char n] else str_nat (n div 10) @ [digit_char (n mod 10)])"

section \<open>datetime, isoformat and fromisoformat\<close>

text \<open>
  A \<^verbatim>\<open>datetime\<close> value: the civil fields and the UTC offset of its tzinfo in minutes
  (\<open>None\<close> for a naive value, \<open>Some 0\<close> for \<^verbatim>\<open>timezone.utc\<close>). Python only ever builds
  values that satisfy \<open>valid_datetime\<close>.
\<close>

record datetime =
  year :: nat
  month :: nat
  day :: nat
  hour :: nat
  minute :: nat
  second :: nat
  microsecond :: nat
  utcoffset :: "int option"

definition is_leap :: "nat \<Rightarrow> bool" where
  "is_leap y = (y mod 4 = 0 \<and> (y mod 100 \<noteq> 0 \<or> y mod 400 = 0))"

definition days_in_month :: "nat \<Rightarrow> nat \<Rightarrow> nat" where
  "days_in_month y m =
     (if m = 2 then (if is_leap y then 29 else 28)
      else if m \<in> {4, 6, 9, 11} then 30 else 31)"

definition valid_datetime :: "datetime \<Rightarrow> bool" where
  "valid_datetime t =
     (1 \<le> year t \<and> year t \<le> 9999 \<and> 1 \<le> month t \<and> month t \<le> 12 \<and>
      1 \<le> day t \<and> day t \<le> days_in_month (year t) (month t) \<and>
      hour t < 24 \<and> minute t < 60 \<and> second t < 60 \<and> microsecond t < 1000000 \<and>
      (case utcoffset t of None \<Rightarrow> True | Some off \<Rightarrow> - 1440 < off \<and> off < 1440))"

text \<open>
  \<^verbatim>\<open>datetime.isoformat()\<close>: \<^verbatim>\<open>YYYY-MM-DDTHH:MM:SS\<close>, then \<^verbatim>\<open>.ffffff\<close> when the microsecond
  is not zero, then the offset \<^verbatim>\<open>+HH:MM\<close> or \<^verbatim>\<open>-HH:MM\<close> of an aware value.
\<close>

definition format_fraction :: "nat \<Rightarrow> string" where
  "format_fraction us = (if us \<noteq> 0 then ''.'' @ pad 6 us else [])"

definition format_offset :: "int option \<Rightarrow> string" where
  "format_offset tz =
     (case tz of
        None \<Rightarrow> []
      | Some off \<Rightarrow>
          (if off < 0 then ''-'' else ''+'') @ pad 2 (nat \<bar>off\<bar> div 60) @ '':'' @
          pad 2 (nat \<bar>off\<bar> mod 60))"

definition isoformat :: "datetime \<Rightarrow> string" where
  "isoformat t =
     pad 4 (year t) @ ''-'' @ pad 2 (month t) @ ''-'' @ pad 2 (day t) @ ''T'' @
     pad 2 (hour t) @ '':'' @ pad 2 (minute t) @ '':'' @ pad 2 (second t) @
     format_fraction (microsecond t) @ format_offset (utcoffset t)"

text \<open>
  \<^verbatim>\<open>datetime.fromisoformat\<close>, on the strings \<open>isoformat\<close> emits: date, any one separator
  character, \<^verbatim>\<open>HH:MM:SS\<close>, an optional six-digit fraction, an optional offset, and the
  range checks of the datetime constructor. \<open>None\<close> is the \<^verbatim>\<open>ValueError\<close>. CPython also
  accepts shortened forms (a date alone, \<^verbatim>\<open>HH:MM\<close>, three fraction digits) that
  \<open>isoformat\<close> never produces; they are rejected here.
\<close>

definition parse_fraction :: "string \<Rightarrow> (nat \<times> string) option" where
  "parse_fraction s =
     (case s of
        c # r \<Rightarrow> if c = CHR ''.'' then take_num 6 r else Some (0, s)
      | [] \<Rightarrow> Some (0, s))"

definition parse_offset :: "string \<Rightarrow> int option option" where
  "parse_offset s =
     (case s of
        [] \<Rightarrow> Some None
      | c # r \<Rightarrow>
          if c = CHR ''+'' \<or> c = CHR ''-'' then
            do {
              (hh, r1) \<leftarrow> take_num 2 r;
              r2 \<leftarrow> expect CHR '':'' r1;
              (mm, r3) \<leftarrow> take_num 2 r2;
              if r3 = [] \<and> hh * 60 + mm < 1440
              then Some (Some ((if c = CHR ''-'' then - 1 else 1) * int (hh * 60 + mm)))
              else None
            }
          else None)"

definition parse_isoformat :: "string \<Rightarrow> datetime option" where
  "parse_isoformat s =
     do {
       (y, s1) \<leftarrow> take_num 4 s;
       s2 \<leftarrow> expect CHR ''-'' s1;
       (m, s3) \<leftarrow> take_num 2 s2;
       s4 \<leftarrow> expect CHR ''-'' s3;
       (d, s5) \<leftarrow> take_num 2 s4;
       s6 \<leftarrow> (case s5 of [] \<Rightarrow> None | sep # r \<Rightarrow> Some r);
       (hh, s7) \<leftarrow> take_num 2 s6;
       s8 \<leftarrow> expect CHR '':'' s7;
       (mi, s9) \<leftarrow> take_num 2 s8;
       s10 \<leftarrow> expect CHR '':'' s9;
       (ss, s11) \<leftarrow> take_num 2 s10;
       (us, s12) \<leftarrow> parse_fraction s11;
       tz \<leftarrow> parse_offset s12;
       let t = \<lparr>year = y, month = m, day = d, hour = hh, minute = mi, second = ss,
                 microsecond = us, utcoffset = tz\<rparr>
       in if valid_datetime t then Some t else None
     }"

text \<open>
  Python orders two datetimes that carry the same UTC offset by their civil fields,
  most significant first.
\<close>

definition datetime_key :: "datetime \<Rightarrow> nat \<times> nat \<times> nat \<times> nat \<times> nat \<times> nat \<times> nat" where
  "datetime_key t = (year t, month t, day t, hour t, minute t, second t, microsecond t)"

definition utc_datetime :: "datetime \<Rightarrow> bool" where
  "utc_datetime t = (valid_datetime t \<and> utcoffset t = Some 0)"

section \<open>Values and the storage codec\<close>

text \<open>
  The Python values the service moves between its models and the document store. A dict
  is the list of its items in insertion order; \<open>PObjectId\<close> is the \<^verbatim>\<open>_id\<close> the store adds.
\<close>

datatype pyval =
    PNone
  | PStr string
  | PDatetime datetime
  | PObjectId nat
  | PDict "(string \<times> pyval) list"

type_synonym doc = "(string \<times> pyval) list"

text \<open>
  \<^verbatim>\<open>prepare_for_mongo(data)\<close>: on a dict, every datetime value becomes its ISO string and
  every dict value is prepared recursively; every other value, and every \<open>data\<close> that is
  not a dict, is returned as it is. \<open>prepare_for_mongo_items\<close> is the loop over
  \<^verbatim>\<open>data.items()\<close>.
\<close>

fun prepare_for_mongo :: "pyval \<Rightarrow> pyval"
  and prepare_for_mongo_items :: "doc \<Rightarrow> doc" where
  "prepare_for_mongo (PDict kvs) = PDict (prepare_for_mongo_items kvs)"
| "prepare_for_mongo PNone = PNone"
| "prepare_for_mongo (PStr s) = PStr s"
| "prepare_for_mongo (PDatetime t) = PDatetime t"
| "prepare_for_mongo (PObjectId n) = PObjectId n"
| "prepare_for_mongo_items [] = []"
| "prepare_for_mongo_items ((k, PDatetime t) # r) =
     (k, PStr (isoformat t)) # prepare_for_mongo_items r"
| "prepare_for_mongo_items ((k, PDict d) # r) =
     (k, prepare_for_mongo (PDict d)) # prepare_for_mongo_items r"
| "prepare_for_mongo_items ((k, PNone) # r) = (k, PNone) # prepare_for_mongo_items r"
| "prepare_for_mongo_items ((k, PStr s) # r) = (k, PStr s) # prepare_for_mongo_items r"
| "prepare_for_mongo_items ((k, PObjectId n) # r) = (k, PObjectId n) # prepare_for_mongo_items r"

definition dict_of :: "pyval \<Rightarrow> doc" where
  "dict_of v = (case v of PDict kvs \<Rightarrow> kvs | _ \<Rightarrow> [])"

text \<open>\<^verbatim>\<open>d[k] = v\<close> on a dict.\<close>

fun dict_set :: "string \<Rightarrow> pyval \<Rightarrow> doc \<Rightarrow> doc" where
  "dict_set k v [] = [(k, v)]"
| "dict_set k v ((k', v') # r) = (if k = k' then (k, v) # r else (k', v') # dict_set k v r)"

section \<open>Exceptions\<close>

text \<open>
  \<open>HTTPException status detail\<close> is FastAPI's; \<open>Exception msg\<close> is any other exception,
  with \<open>msg\<close> its \<^verbatim>\<open>str(e)\<close>.
\<close>

datatype exn = HTTPException nat string | Exception string

definition exn_str :: "exn \<Rightarrow> string" where
  "exn_str e = (case e of HTTPException c d \<Rightarrow> str_nat c @ '': '' @ d | Exception m \<Rightarrow> m)"

text \<open>
  The two handler shapes of the routes: \<^verbatim>\<open>except HTTPException: raise\<close> followed by
  \<^verbatim>\<open>except Exception as e: raise HTTPException(500, prefix + str(e))\<close>, and the second
  clause alone.
\<close>

definition reraise :: "string \<Rightarrow> exn \<Rightarrow> exn" where
  "reraise prefix e =
     (case e of HTTPException c d \<Rightarrow> HTTPException c d
      | Exception m \<Rightarrow> HTTPException 500 (prefix @ m))"

definition wrap_500 :: "string \<Rightarrow> exn \<Rightarrow> exn" where
  "wrap_500 prefix e = HTTPException 500 (prefix @ exn_str e)"

text \<open>
  The statement \<^verbatim>\<open>if isinstance(d.get(k), str): d[k] = datetime.fromisoformat(d[k])\<close>
  of the read routes.
\<close>

definition fromisoformat :: "string \<Rightarrow> exn + datetime" where
  "fromisoformat s =
     (case parse_isoformat s of
        None \<Rightarrow> Inl (Exception (''Invalid isoformat string: '' @ [CHR 0x27] @ s @ [CHR 0x27]))
      | Some t \<Rightarrow> Inr t)"

definition revive :: "string \<Rightarrow> doc \<Rightarrow> exn + doc" where
  "revive k d =
     (case map_of d k of
        Some (PStr s) \<Rightarrow>
          (case fromisoformat s of Inl e \<Rightarrow> Inl e | Inr t \<Rightarrow> Inr (dict_set k (PDatetime t) d))
      | _ \<Rightarrow> Inr d)"

fun revive_all :: "string \<Rightarrow> doc list \<Rightarrow> exn + doc list" where
  "revive_all k [] = Inr []"
| "revive_all k (d # ds) =
     (case revive k d of
        Inl e \<Rightarrow> Inl e
      | Inr d' \<Rightarrow> (case revive_all k ds of Inl e \<Rightarrow> Inl e | Inr ds' \<Rightarrow> Inr (d' # ds')))"

section \<open>The world outside the process\<close>

text \<open>
  The external model client. A chat is configured by provider, model, session id and
  system message; a message is a text with attached files.
\<close>

record FileContentWithMimeType =
  file_path :: string
  mime_type :: string

record UserMessage =
  text_of :: string
  file_contents :: "FileContentWithMimeType list"

record LlmChat =
  session_id :: string
  system_message :: string
  provider :: string
  model_name :: string

text \<open>
  What one request sees of its environment: the instant \<^verbatim>\<open>datetime.now(timezone.utc)\<close>
  reads, and the outcome of each model call (\<open>Inl msg\<close> is an exception whose
  \<^verbatim>\<open>str\<close> is \<open>msg\<close>).
\<close>

record env =
  now :: datetime
  backend :: "LlmChat \<Rightarrow> UserMessage \<Rightarrow> string + string"

text \<open>
  The state the service acts on: the four collections, the files written under the
  upload directory, the warnings logged, the model calls made, and the counters behind
  \<^verbatim>\<open>uuid.uuid4()\<close> (a source of tokens never handed out before) and behind the store's
  \<^verbatim>\<open>_id\<close>. The store and the file system are taken to work: their own faults are not
  modelled.
\<close>

record world =
  users :: "doc list"
  chat_history :: "doc list"
  file_metadata :: "doc list"
  search_results :: "doc list"
  uploads :: "(string \<times> string) list"
  warnings :: "string list"
  llm_calls :: "(LlmChat \<times> UserMessage) list"
  uuid_counter :: nat
  oid_counter :: nat

definition uuid4 :: "world \<Rightarrow> string \<times> world" where
  "uuid4 w = (str_nat (uuid_counter w), w\<lparr>uuid_counter := Suc (uuid_counter w)\<rparr>)"

definition with_oid :: "nat \<Rightarrow> doc \<Rightarrow> doc" where
  "with_oid n d = (''_id'', PObjectId n) # d"

text \<open>
  \<^verbatim>\<open>find(filter).sort(field, direction).to_list(n)\<close>. The store orders strings by their
  bytes and puts a missing or null field before every string; the service stores only
  strings under the fields it sorts by, so values of the other kinds are ranked by kind
  alone.
\<close>

definition bson_key :: "pyval option \<Rightarrow> nat \<times> string" where
  "bson_key v =
     (case v of
        None \<Rightarrow> (0, [])
      | Some PNone \<Rightarrow> (0, [])
      | Some (PStr s) \<Rightarrow> (1, s)
      | Some (PDict d) \<Rightarrow> (2, [])
      | Some (PObjectId n) \<Rightarrow> (3, [])
      | Some (PDatetime t) \<Rightarrow> (4, []))"

definition mongo_find :: "string \<Rightarrow> string \<Rightarrow> string \<Rightarrow> int \<Rightarrow> nat \<Rightarrow> doc list \<Rightarrow> doc list" where
  "mongo_find k v field direction n coll =
     (let matching = filter (\<lambda>d. map_of d k = Some (PStr v)) coll;
          ascending = sort_key (\<lambda>d. bson_key (map_of d field)) matching
      in take n (if direction < 0 then rev ascending else ascending))"

definition find_one :: "string \<Rightarrow> string \<Rightarrow> doc list \<Rightarrow> doc option" where
  "find_one k v coll = find (\<lambda>d. map_of d k = Some (PStr v)) coll"

definition send_message :: "env \<Rightarrow> LlmChat \<Rightarrow> UserMessage \<Rightarrow> world \<Rightarrow> (string + string) \<times> world" where
  "send_message e chat msg w = (backend e chat msg, w\<lparr>llm_calls := llm_calls w @ [(chat, msg)]\<rparr>)"

section \<open>Models\<close>

record User =
  id :: string
  first_name :: string
  username :: "string option"
  phone :: "string option"
  chat_id :: string
  created_at :: datetime

record UserCreate =
  first_name :: string
  username :: "string option"
  phone :: "string option"

record ChatMessage =
  id :: string
  user_id :: string
  message :: string
  response :: string
  timestamp :: datetime

record ChatRequest =
  user_id :: string
  message :: string

record FileMetadata =
  id :: string
  user_id :: string
  filename :: string
  description :: string
  file_path :: string
  file_type :: string
  uploaded_at :: datetime

record SearchRequest =
  user_id :: string
  query :: string

record SearchResult =
  id :: string
  user_id :: string
  query :: string
  summary :: string
  timestamp :: datetime

text \<open>An uploaded form file: the client's file name, its declared content type, its bytes.\<close>

record UploadFile =
  filename :: string
  content_type :: "string option"
  content :: string

text \<open>\<^verbatim>\<open>model.dict()\<close>: the fields in declaration order.\<close>

definition opt_str :: "string option \<Rightarrow> pyval" where
  "opt_str v = (case v of None \<Rightarrow> PNone | Some s \<Rightarrow> PStr s)"

definition User_dict :: "User \<Rightarrow> doc" where
  "User_dict u =
     [(''id'', PStr (User.id u)), (''first_name'', PStr (User.first_name u)),
      (''username'', opt_str (User.username u)), (''phone'', opt_str (User.phone u)),
      (''chat_id'', PStr (User.chat_id u)), (''created_at'', PDatetime (User.created_at u))]"

definition UserCreate_dict :: "UserCreate \<Rightarrow> doc" where
  "UserCreate_dict c =
     [(''first_name'', PStr (UserCreate.first_name c)),
      (''username'', opt_str (UserCreate.username c)), (''phone'', opt_str (UserCreate.phone c))]"

definition ChatMessage_dict :: "ChatMessage \<Rightarrow> doc" where
  "ChatMessage_dict m =
     [(''id'', PStr (ChatMessage.id m)), (''user_id'', PStr (ChatMessage.user_id m)),
      (''message'', PStr (ChatMessage.message m)), (''response'', PStr (ChatMessage.response m)),
      (''timestamp'', PDatetime (ChatMessage.timestamp m))]"

definition FileMetadata_dict :: "FileMetadata \<Rightarrow> doc" where
  "FileMetadata_dict f =
     [(''id'', PStr (FileMetadata.id f)), (''user_id'', PStr (FileMetadata.user_id f)),
      (''filename'', PStr (FileMetadata.filename f)),
      (''description'', PStr (FileMetadata.description f)),
      (''file_path'', PStr (FileMetadata.file_path f)),
      (''file_type'', PStr (FileMetadata.file_type f)),
      (''uploaded_at'', PDatetime (FileMetadata.uploaded_at f))]"

definition SearchResult_dict :: "SearchResult \<Rightarrow> doc" where
  "SearchResult_dict r =
     [(''id'', PStr (SearchResult.id r)), (''user_id'', PStr (SearchResult.user_id r)),
      (''query'', PStr (SearchResult.query r)), (''summary'', PStr (SearchResult.summary r)),
      (''timestamp'', PDatetime (SearchResult.timestamp r))]"

text \<open>
  Field validation of a model built from keyword arguments; \<open>None\<close> is a field the
  validation rejects. A \<^verbatim>\<open>str\<close> field takes a string; an \<^verbatim>\<open>Optional[str]\<close> field takes a
  string or \<^verbatim>\<open>None\<close> and defaults to \<^verbatim>\<open>None\<close>; an identifier field defaults to a fresh
  \<^verbatim>\<open>uuid4\<close>; a timestamp field defaults to the current instant. Extra keys (the store's
  \<^verbatim>\<open>_id\<close>) are ignored. The read routes turn a stored string timestamp into a datetime
  before they build the model, so the string case of \<open>datetime_field\<close> is never reached
  with a stored document.
\<close>

definition str_field :: "doc \<Rightarrow> string \<Rightarrow> string option" where
  "str_field kw k = (case map_of kw k of Some (PStr s) \<Rightarrow> Some s | _ \<Rightarrow> None)"

definition opt_str_field :: "doc \<Rightarrow> string \<Rightarrow> string option option" where
  "opt_str_field kw k =
     (case map_of kw k of
        None \<Rightarrow> Some None
      | Some PNone \<Rightarrow> Some None
      | Some (PStr s) \<Rightarrow> Some (Some s)
      | _ \<Rightarrow> None)"

definition id_field :: "doc \<Rightarrow> string \<Rightarrow> world \<Rightarrow> string option \<times> world" where
  "id_field kw k w =
     (case map_of kw k of
        None \<Rightarrow> (let (tok, w') = uuid4 w in (Some tok, w'))
      | Some (PStr s) \<Rightarrow> (Some s, w)
      | _ \<Rightarrow> (None, w))"

definition datetime_field :: "env \<Rightarrow> doc \<Rightarrow> string \<Rightarrow> datetime option" where
  "datetime_field e kw k =
     (case map_of kw k of
        None \<Rightarrow> Some (now e)
      | Some (PDatetime t) \<Rightarrow> Some t
      | Some (PStr s) \<Rightarrow> parse_isoformat s
      | _ \<Rightarrow> None)"

definition validated :: "string \<Rightarrow> 'a option \<Rightarrow> exn + 'a" where
  "validated name r =
     (case r of None \<Rightarrow> Inl (Exception (''validation error for '' @ name)) | Some x \<Rightarrow> Inr x)"

definition mk_User :: "env \<Rightarrow> doc \<Rightarrow> world \<Rightarrow> (exn + User) \<times> world" where
  "mk_User e kw w =
     (let (i, w1) = id_field kw ''id'' w;
          (c, w2) = id_field kw ''chat_id'' w1
      in (validated ''User''
            (do {
               i' \<leftarrow> i;
               f \<leftarrow> str_field kw ''first_name'';
               u \<leftarrow> opt_str_field kw ''username'';
               p \<leftarrow> opt_str_field kw ''phone'';
               c' \<leftarrow> c;
               t \<leftarrow> datetime_field e kw ''created_at'';
               Some \<lparr>User.id = i', first_name = f, username = u, phone = p, chat_id = c',
                      created_at = t\<rparr>
             }), w2))"

definition mk_ChatMessage :: "env \<Rightarrow> doc \<Rightarrow> world \<Rightarrow> (exn + ChatMessage) \<times> world" where
  "mk_ChatMessage e kw w =
     (let (i, w1) = id_field kw ''id'' w
      in (validated ''ChatMessage''
            (do {
               i' \<leftarrow> i;
               u \<leftarrow> str_field kw ''user_id'';
               m \<leftarrow> str_field kw ''message'';
               r \<leftarrow> str_field kw ''response'';
               t \<leftarrow> datetime_field e kw ''timestamp'';
               Some \<lparr>ChatMessage.id = i', user_id = u, message = m, response = r, timestamp = t\<rparr>
             }), w1))"

definition mk_FileMetadata :: "env \<Rightarrow> doc \<Rightarrow> world \<Rightarrow> (exn + FileMetadata) \<times> world" where
  "mk_FileMetadata e kw w =
     (let (i, w1) = id_field kw ''id'' w
      in (validated ''FileMetadata''
            (do {
               i' \<leftarrow> i;
               u \<leftarrow> str_field kw ''user_id'';
               f \<leftarrow> str_field kw ''filename'';
               d \<leftarrow> str_field kw ''description'';
               p \<leftarrow> str_field kw ''file_path'';
               ft \<leftarrow> str_field kw ''file_type'';
               t \<leftarrow> datetime_field e kw ''uploaded_at'';
               Some \<lparr>FileMetadata.id = i', user_id = u, filename = f, description = d,
                      file_path = p, file_type = ft, uploaded_at = t\<rparr>
             }), w1))"

definition mk_SearchResult :: "env \<Rightarrow> doc \<Rightarrow> world \<Rightarrow> (exn + SearchResult) \<times> world" where
  "mk_SearchResult e kw w =
     (let (i, w1) = id_field kw ''id'' w
      in (validated ''SearchResult''
            (do {
               i' \<leftarrow> i;
               u \<leftarrow> str_field kw ''user_id'';
               q \<leftarrow> str_field kw ''query'';
               sm \<leftarrow> str_field kw ''summary'';
               t \<leftarrow> datetime_field e kw ''timestamp'';
               Some \<lparr>SearchResult.id = i', user_id = u, query = q, summary = sm, timestamp = t\<rparr>
             }), w1))"

text \<open>\<^verbatim>\<open>[Model(**d) for d in docs]\<close>: the models in order, stopping at the first failure.\<close>

fun build_all :: "(doc \<Rightarrow> world \<Rightarrow> (exn + 'a) \<times> world) \<Rightarrow> doc list \<Rightarrow> world \<Rightarrow> (exn + 'a list) \<times> world" where
  "build_all mk [] w = (Inr [], w)"
| "build_all mk (d # ds) w =
     (case mk d w of
        (Inl e, w1) \<Rightarrow> (Inl e, w1)
      | (Inr x, w1) \<Rightarrow>
          (case build_all mk ds w1 of
             (Inl e, w2) \<Rightarrow> (Inl e, w2)
           | (Inr xs, w2) \<Rightarrow> (Inr (x # xs), w2)))"

text \<open>\<^verbatim>\<open>insert_one\<close> on each collection: the store adds its \<^verbatim>\<open>_id\<close>.\<close>

definition insert_user :: "doc \<Rightarrow> world \<Rightarrow> world" where
  "insert_user d w =
     w\<lparr>users := users w @ [with_oid (oid_counter w) d], oid_counter := Suc (oid_counter w)\<rparr>"

definition insert_chat :: "doc \<Rightarrow> world \<Rightarrow> world" where
  "insert_chat d w =
     w\<lparr>chat_history := chat_history w @ [with_oid (oid_counter w) d],
       oid_counter := Suc (oid_counter w)\<rparr>"

definition insert_file :: "doc \<Rightarrow> world \<Rightarrow> world" where
  "insert_file d w =
     w\<lparr>file_metadata := file_metadata w @ [with_oid (oid_counter w) d],
       oid_counter := Suc (oid_counter w)\<rparr>"

definition insert_search :: "doc \<Rightarrow> world \<Rightarrow> world" where
  "insert_search d w =
     w\<lparr>search_results := search_results w @ [with_oid (oid_counter w) d],
       oid_counter := Suc (oid_counter w)\<rparr>"

section \<open>Routes\<close>

definition get_llm_chat :: "string \<Rightarrow> LlmChat" where
  "get_llm_chat sid =
     \<lparr>session_id = sid,
      system_message =
        ''You are a helpful AI assistant. Provide clear, informative, and engaging responses.'',
      provider = ''openai'', model_name = ''gpt-5''\<rparr>"

text \<open>\<^verbatim>\<open>UserMessage(text=t)\<close>, with no file attached.\<close>

definition text_message :: "string \<Rightarrow> UserMessage" where
  "text_message t = \<lparr>text_of = t, file_contents = []\<rparr>"

subsection \<open>Users\<close>

definition create_user :: "env \<Rightarrow> UserCreate \<Rightarrow> world \<Rightarrow> (exn + User) \<times> world" where
  "create_user e user_data w =
     (case mk_User e (UserCreate_dict user_data) w of
        (Inl ex, w1) \<Rightarrow> (Inl (wrap_500 ''Error creating user: '' ex), w1)
      | (Inr user, w1) \<Rightarrow>
          (Inr user, insert_user (dict_of (prepare_for_mongo (PDict (User_dict user)))) w1))"

definition get_user_body :: "env \<Rightarrow> string \<Rightarrow> world \<Rightarrow> (exn + User) \<times> world" where
  "get_user_body e uid w =
     (case find_one ''id'' uid (users w) of
        None \<Rightarrow> (Inl (HTTPException 404 ''User not found''), w)
      | Some user_data \<Rightarrow>
          (case revive ''created_at'' user_data of
             Inl ex \<Rightarrow> (Inl ex, w)
           | Inr user_data' \<Rightarrow> mk_User e user_data' w))"

definition get_user :: "env \<Rightarrow> string \<Rightarrow> world \<Rightarrow> (exn + User) \<times> world" where
  "get_user e uid w =
     (case get_user_body e uid w of
        (Inl ex, w1) \<Rightarrow> (Inl (reraise ''Error retrieving user: '' ex), w1)
      | (Inr user, w1) \<Rightarrow> (Inr user, w1))"

subsection \<open>Chat\<close>

definition chat_with_ai_body :: "env \<Rightarrow> ChatRequest \<Rightarrow> world \<Rightarrow> (exn + ChatMessage) \<times> world" where
  "chat_with_ai_body e chat_request w =
     (case find_one ''id'' (ChatRequest.user_id chat_request) (users w) of
        None \<Rightarrow> (Inl (HTTPException 404 ''User not found''), w)
      | Some user \<Rightarrow>
          (let chat = get_llm_chat (ChatRequest.user_id chat_request);
               user_message = text_message (ChatRequest.message chat_request)
           in case send_message e chat user_message w of
                (Inl msg, w1) \<Rightarrow> (Inl (Exception msg), w1)
              | (Inr ai_response, w1) \<Rightarrow>
                  (case mk_ChatMessage e
                          [(''user_id'', PStr (ChatRequest.user_id chat_request)),
                           (''message'', PStr (ChatRequest.message chat_request)),
                           (''response'', PStr ai_response)] w1 of
                     (Inl ex, w2) \<Rightarrow> (Inl ex, w2)
                   | (Inr chat_message, w2) \<Rightarrow>
                       (Inr chat_message,
                        insert_chat
                          (dict_of (prepare_for_mongo (PDict (ChatMessage_dict chat_message))))
                          w2))))"

definition chat_with_ai :: "env \<Rightarrow> ChatRequest \<Rightarrow> world \<Rightarrow> (exn + ChatMessage) \<times> world" where
  "chat_with_ai e chat_request w =
     (case chat_with_ai_body e chat_request w of
        (Inl ex, w1) \<Rightarrow> (Inl (reraise ''Error processing chat: '' ex), w1)
      | (Inr chat_message, w1) \<Rightarrow> (Inr chat_message, w1))"

definition get_chat_history :: "env \<Rightarrow> string \<Rightarrow> world \<Rightarrow> (exn + ChatMessage list) \<times> world" where
  "get_chat_history e uid w =
     (let found = mongo_find ''user_id'' uid ''timestamp'' 1 100 (chat_history w)
      in case (case revive_all ''timestamp'' found of
                 Inl ex \<Rightarrow> (Inl ex, w)
               | Inr chats \<Rightarrow> build_all (mk_ChatMessage e) chats w) of
           (Inl ex, w1) \<Rightarrow> (Inl (wrap_500 ''Error retrieving chat history: '' ex), w1)
         | (Inr ms, w1) \<Rightarrow> (Inr ms, w1))"

subsection \<open>Upload and analysis\<close>

definition allowed_types :: "string set" where
  "allowed_types = {''image/jpeg'', ''image/png'', ''application/pdf''}"

definition fallback_description :: "string \<Rightarrow> string \<Rightarrow> string" where
  "fallback_description ftype fname = ''Uploaded '' @ ftype @ '' file: '' @ fname"

text \<open>
  The chat, the attached file and the message of the analysis call, and the path the
  bytes are written to: the upload directory joined with \<^verbatim>\<open>f"{uuid.uuid4()}_{file.filename}"\<close>.
\<close>

definition gemini_chat :: "string \<Rightarrow> LlmChat" where
  "gemini_chat uid =
     \<lparr>session_id = uid @ ''_file_analysis'',
      system_message =
        ''You are an expert file analyzer. Describe the content of uploaded files in detail.'',
      provider = ''gemini'', model_name = ''gemini-2.0-flash''\<rparr>"

definition analysis_message :: "string \<Rightarrow> string \<Rightarrow> UserMessage" where
  "analysis_message ftype path =
     \<lparr>text_of = ''Please analyze this '' @ ftype @ '' file and describe its content in detail.'',
      file_contents = [\<lparr>FileContentWithMimeType.file_path = path, mime_type = ftype\<rparr>]\<rparr>"

definition upload_path :: "string \<Rightarrow> string \<Rightarrow> string" where
  "upload_path tok fname = ''/app/uploads/'' @ tok @ ''_'' @ fname"

text \<open>
  The inner \<^verbatim>\<open>try\<close> of the upload route: the description the analysis model returns,
  or, when the call raises, the fallback text with a warning logged.
\<close>

definition analyze :: "env \<Rightarrow> string \<Rightarrow> string \<Rightarrow> string \<Rightarrow> string \<Rightarrow> world \<Rightarrow> string \<times> world" where
  "analyze e uid ftype path fname w =
     (case send_message e (gemini_chat uid) (analysis_message ftype path) w of
        (Inr descr, w1) \<Rightarrow> (descr, w1)
      | (Inl msg, w1) \<Rightarrow>
          (fallback_description ftype fname,
           w1\<lparr>warnings := warnings w1 @ [''File analysis failed: '' @ msg]\<rparr>))"

definition store_upload :: "env \<Rightarrow> string \<Rightarrow> string \<Rightarrow> UploadFile \<Rightarrow> world \<Rightarrow> (exn + FileMetadata) \<times> world" where
  "store_upload e uid ftype file w =
     (let (tok, w1) = uuid4 w;
          path = upload_path tok (UploadFile.filename file);
          w2 = w1\<lparr>uploads := uploads w1 @ [(path, content file)]\<rparr>;
          (descr, w3) = analyze e uid ftype path (UploadFile.filename file) w2
      in case mk_FileMetadata e
                [(''user_id'', PStr uid), (''filename'', PStr (UploadFile.filename file)),
                 (''description'', PStr descr), (''file_path'', PStr path),
                 (''file_type'', PStr ftype)] w3 of
           (Inl ex, w4) \<Rightarrow> (Inl ex, w4)
         | (Inr metadata, w4) \<Rightarrow>
             (Inr metadata,
              insert_file (dict_of (prepare_for_mongo (PDict (FileMetadata_dict metadata)))) w4))"

definition upload_and_analyze_file_body :: "env \<Rightarrow> string \<Rightarrow> UploadFile \<Rightarrow> world \<Rightarrow> (exn + FileMetadata) \<times> world" where
  "upload_and_analyze_file_body e uid file w =
     (case find_one ''id'' uid (users w) of
        None \<Rightarrow> (Inl (HTTPException 404 ''User not found''), w)
      | Some user \<Rightarrow>
          (case content_type file of
             None \<Rightarrow> (Inl (HTTPException 400 ''Only JPG, PNG, and PDF files are allowed''), w)
           | Some ftype \<Rightarrow>
               if ftype \<notin> allowed_types
               then (Inl (HTTPException 400 ''Only JPG, PNG, and PDF files are allowed''), w)
               else store_upload e uid ftype file w))"

definition upload_and_analyze_file :: "env \<Rightarrow> string \<Rightarrow> UploadFile \<Rightarrow> world \<Rightarrow> (exn + FileMetadata) \<times> world" where
  "upload_and_analyze_file e uid file w =
     (case upload_and_analyze_file_body e uid file w of
        (Inl ex, w1) \<Rightarrow> (Inl (reraise ''Error processing file upload: '' ex), w1)
      | (Inr metadata, w1) \<Rightarrow> (Inr metadata, w1))"

definition get_user_files :: "env \<Rightarrow> string \<Rightarrow> world \<Rightarrow> (exn + FileMetadata list) \<times> world" where
  "get_user_files e uid w =
     (let files = mongo_find ''user_id'' uid ''uploaded_at'' (- 1) 50 (file_metadata w)
      in case (case revive_all ''uploaded_at'' files of
                 Inl ex \<Rightarrow> (Inl ex, w)
               | Inr files' \<Rightarrow> build_all (mk_FileMetadata e) files' w) of
           (Inl ex, w1) \<Rightarrow> (Inl (wrap_500 ''Error retrieving files: '' ex), w1)
         | (Inr fs, w1) \<Rightarrow> (Inr fs, w1))"

subsection \<open>Search\<close>

definition search_prompt :: "string \<Rightarrow> string" where
  "search_prompt q =
     ''Please provide a comprehensive and informative response about: '' @ [CHR 0x22] @ q @
     [CHR 0x22, CHR 0x0A, CHR 0x0A] @
     ''Include:'' @ [CHR 0x0A] @
     ''1. Key information and facts'' @ [CHR 0x0A] @
     ''2. Current context and relevance'' @ [CHR 0x0A] @
     ''3. Multiple perspectives if applicable'' @ [CHR 0x0A] @
     ''4. Helpful resources or suggestions'' @ [CHR 0x0A, CHR 0x0A] @
     ''Format your response as if you'' @ [CHR 0x27] @
     ''ve searched the web and are providing a summary of the most relevant and useful information.''"

definition web_search_body :: "env \<Rightarrow> SearchRequest \<Rightarrow> world \<Rightarrow> (exn + SearchResult) \<times> world" where
  "web_search_body e search_request w =
     (case find_one ''id'' (SearchRequest.user_id search_request) (users w) of
        None \<Rightarrow> (Inl (HTTPException 404 ''User not found''), w)
      | Some user \<Rightarrow>
          (let chat = get_llm_chat (SearchRequest.user_id search_request @ ''_search'');
               user_message = text_message (search_prompt (SearchRequest.query search_request))
           in case send_message e chat user_message w of
                (Inl msg, w1) \<Rightarrow> (Inl (Exception msg), w1)
              | (Inr summ, w1) \<Rightarrow>
                  (case mk_SearchResult e
                          [(''user_id'', PStr (SearchRequest.user_id search_request)),
                           (''query'', PStr (SearchRequest.query search_request)),
                           (''summary'', PStr summ)] w1 of
                     (Inl ex, w2) \<Rightarrow> (Inl ex, w2)
                   | (Inr search_result, w2) \<Rightarrow>
                       (Inr search_result,
                        insert_search
                          (dict_of (prepare_for_mongo (PDict (SearchResult_dict search_result))))
                          w2))))"

definition web_search :: "env \<Rightarrow> SearchRequest \<Rightarrow> world \<Rightarrow> (exn + SearchResult) \<times> world" where
  "web_search e search_request w =
     (case web_search_body e search_request w of
        (Inl ex, w1) \<Rightarrow> (Inl (reraise ''Error processing search: '' ex), w1)
      | (Inr search_result, w1) \<Rightarrow> (Inr search_result, w1))"

definition get_search_history :: "env \<Rightarrow> string \<Rightarrow> world \<Rightarrow> (exn + SearchResult list) \<times> world" where
  "get_search_history e uid w =
     (let searches = mongo_find ''user_id'' uid ''timestamp'' (- 1) 50 (search_results w)
      in case (case revive_all ''timestamp'' searches of
                 Inl ex \<Rightarrow> (Inl ex, w)
               | Inr searches' \<Rightarrow> build_all (mk_SearchResult e) searches' w) of
           (Inl ex, w1) \<Rightarrow> (Inl (wrap_500 ''Error retrieving search history: '' ex), w1)
         | (Inr rs, w1) \<Rightarrow> (Inr rs, w1))"

subsection \<open>The router\<close>

datatype request =
    PostUsers UserCreate
  | GetUser string
  | PostChat ChatRequest
  | GetChat string
  | PostUpload string UploadFile
  | GetFiles string
  | PostWebsearch SearchRequest
  | GetSearch string

datatype reply =
    AUser User
  | AChat ChatMessage
  | AChats "ChatMessage list"
  | AFile FileMetadata
  | AFiles "FileMetadata list"
  | ASearch SearchResult
  | ASearches "SearchResult list"

definition answer :: "('a \<Rightarrow> reply) \<Rightarrow> (exn + 'a) \<times> world \<Rightarrow> (exn + reply) \<times> world" where
  "answer wrap r = (case r of (Inl ex, w) \<Rightarrow> (Inl ex, w) | (Inr x, w) \<Rightarrow> (Inr (wrap x), w))"

fun route :: "env \<Rightarrow> request \<Rightarrow> world \<Rightarrow> (exn + reply) \<times> world" where
  "route e (PostUsers user_data) w = answer AUser (create_user e user_data w)"
| "route e (GetUser uid) w = answer AUser (get_user e uid w)"
| "route e (PostChat chat_request) w = answer AChat (chat_with_ai e chat_request w)"
| "route e (GetChat uid) w = answer AChats (get_chat_history e uid w)"
| "route e (PostUpload uid file) w = answer AFile (upload_and_analyze_file e uid file w)"
| "route e (GetFiles uid) w = answer AFiles (get_user_files e uid w)"
| "route e (PostWebsearch search_request) w = answer ASearch (web_search e search_request w)"
| "route e (GetSearch uid) w = answer ASearches (get_search_history e uid w)"

text \<open>A sequence of requests, each with the environment it meets.\<close>

fun serve :: "(env \<times> request) list \<Rightarrow> world \<Rightarrow> world" where
  "serve [] w = w"
| "serve ((e, r) # rs) w = serve rs (snd (route e r w))"

text \<open>The identifier of the record a write request has created.\<close>

fun created_id :: "request \<Rightarrow> reply \<Rightarrow> string option" where
  "created_id (PostUsers _) (AUser u) = Some (User.id u)"
| "created_id (PostChat _) (AChat m) = Some (ChatMessage.id m)"
| "created_id (PostUpload _ _) (AFile f) = Some (FileMetadata.id f)"
| "created_id (PostWebsearch _) (ASearch r) = Some (SearchResult.id r)"
| "created_id _ _ = None"

definition empty_world :: world where
  "empty_world =
     \<lparr>users = [], chat_history = [], file_metadata = [], search_results = [], uploads = [],
      warnings = [], llm_calls = [], uuid_counter = 0, oid_counter = 0\<rparr>"

section \<open>Notions used in the statements\<close>

text \<open>The session ids of the model calls made so far, oldest first.\<close>

definition sessions :: "world \<Rightarrow> string list" where
  "sessions w = map (\<lambda>(chat, msg). session_id chat) (llm_calls w)"

text \<open>The kind of a value, as \<^verbatim>\<open>isinstance\<close> tells it.\<close>

definition is_datetime :: "pyval \<Rightarrow> bool" where
  "is_datetime v = (case v of PDatetime t \<Rightarrow> True | _ \<Rightarrow> False)"

definition is_dict :: "pyval \<Rightarrow> bool" where
  "is_dict v = (case v of PDict d \<Rightarrow> True | _ \<Rightarrow> False)"

text \<open>
  Reading one stored document back: the timestamp statement of the read routes followed
  by the model constructor.
\<close>

definition decode_User :: "env \<Rightarrow> doc \<Rightarrow> world \<Rightarrow> (exn + User) \<times> world" where
  "decode_User e d w =
     (case revive ''created_at'' d of Inl ex \<Rightarrow> (Inl ex, w) | Inr d' \<Rightarrow> mk_User e d' w)"

definition decode_ChatMessage :: "env \<Rightarrow> doc \<Rightarrow> world \<Rightarrow> (exn + ChatMessage) \<times> world" where
  "decode_ChatMessage e d w =
     (case revive ''timestamp'' d of Inl ex \<Rightarrow> (Inl ex, w) | Inr d' \<Rightarrow> mk_ChatMessage e d' w)"

definition decode_FileMetadata :: "env \<Rightarrow> doc \<Rightarrow> world \<Rightarrow> (exn + FileMetadata) \<times> world" where
  "decode_FileMetadata e d w =
     (case revive ''uploaded_at'' d of Inl ex \<Rightarrow> (Inl ex, w) | Inr d' \<Rightarrow> mk_FileMetadata e d' w)"

definition decode_SearchResult :: "env \<Rightarrow> doc \<Rightarrow> world \<Rightarrow> (exn + SearchResult) \<times> world" where
  "decode_SearchResult e d w =
     (case revive ''timestamp'' d of Inl ex \<Rightarrow> (Inl ex, w) | Inr d' \<Rightarrow> mk_SearchResult e d' w)"

text \<open>
  The record each write route builds when its model call has answered: the identifier is
  the next token, the timestamp the instant the request reads.
\<close>

definition new_chat :: "env \<Rightarrow> ChatRequest \<Rightarrow> string \<Rightarrow> world \<Rightarrow> ChatMessage" where
  "new_chat e req r w =
     \<lparr>ChatMessage.id = str_nat (uuid_counter w), user_id = ChatRequest.user_id req,
      message = ChatRequest.message req, response = r, timestamp = now e\<rparr>"

definition new_search :: "env \<Rightarrow> SearchRequest \<Rightarrow> string \<Rightarrow> world \<Rightarrow> SearchResult" where
  "new_search e req sm w =
     \<lparr>SearchResult.id = str_nat (uuid_counter w), user_id = SearchRequest.user_id req,
      query = SearchRequest.query req, summary = sm, timestamp = now e\<rparr>"


definition new_user :: "env \<Rightarrow> UserCreate \<Rightarrow> world \<Rightarrow> User" where
  "new_user e c w =
     \<lparr>User.id = str_nat (uuid_counter w), first_name = UserCreate.first_name c,
      username = UserCreate.username c, phone = UserCreate.phone c,
      chat_id = str_nat (Suc (uuid_counter w)), created_at = now e\<rparr>"

section \<open>Sample values\<close>

text \<open>Concrete inputs on which the statements below are run.\<close>

definition sample_time :: datetime where
  "sample_time =
     \<lparr>year = 2024, month = 2, day = 29, hour = 13, minute = 5, second = 9,
      microsecond = 1500, utcoffset = Some 0\<rparr>"

definition sample_env :: env where
  "sample_env = \<lparr>now = sample_time, backend = (\<lambda>chat msg. Inr ''hello'')\<rparr>"

definition failing_env :: env where
  "failing_env = \<lparr>now = sample_time, backend = (\<lambda>chat msg. Inl ''boom'')\<rparr>"


definition sample_signup :: UserCreate where
  "sample_signup = \<lparr>UserCreate.first_name = ''Ana'', username = None, phone = None\<rparr>"

definition sample_user :: User where
  "sample_user =
     \<lparr>User.id = ''0'', first_name = ''Ana'', username = None, phone = None, chat_id = ''1'',
      created_at = sample_time\<rparr>"

definition sample_chat :: ChatMessage where
  "sample_chat =
     \<lparr>ChatMessage.id = ''2'', user_id = ''0'', message = ''hi'', response = ''hello'',
      timestamp = sample_time\<rparr>"

definition sample_file :: FileMetadata where
  "sample_file =
     \<lparr>FileMetadata.id = ''3'', user_id = ''0'', filename = ''a.png'', description = ''hello'',
      file_path = ''/app/uploads/2_a.png'', file_type = ''image/png'',
      uploaded_at = sample_time\<rparr>"

definition sample_search :: SearchResult where
  "sample_search =
     \<lparr>SearchResult.id = ''2'', user_id = ''0'', query = ''cats'', summary = ''hello'',
      timestamp = sample_time\<rparr>"


definition sample_txt :: UploadFile where
  "sample_txt = \<lparr>UploadFile.filename = ''a.txt'', content_type = Some ''text/plain'', content = ''xx''\<rparr>"

definition sample_chat_request :: ChatRequest where
  "sample_chat_request = \<lparr>ChatRequest.user_id = ''0'', message = ''hi''\<rparr>"

definition stranger_chat_request :: ChatRequest where
  "stranger_chat_request = \<lparr>ChatRequest.user_id = ''nobody'', message = ''hi''\<rparr>"

definition sample_search_request :: SearchRequest where
  "sample_search_request = \<lparr>SearchRequest.user_id = ''0'', query = ''cats''\<rparr>"

definition stranger_search_request :: SearchRequest where
  "stranger_search_request = \<lparr>SearchRequest.user_id = ''nobody'', query = ''cats''\<rparr>"

text \<open>The world after \<open>sample_signup\<close> has registered in the empty world.\<close>

definition sample_world :: world where
  "sample_world =
     \<lparr>users =
        [[(''_id'', PObjectId 0), (''id'', PStr ''0''), (''first_name'', PStr ''Ana''),
          (''username'', PNone), (''phone'', PNone), (''chat_id'', PStr ''1''),
          (''created_at'', PStr ''2024-02-29T13:05:09.001500+00:00'')]],
      chat_history = [], file_metadata = [], search_results = [], uploads = [],
      warnings = [], llm_calls = [], uuid_counter = 2, oid_counter = 1\<rparr>"

section \<open>Facts about text and time\<close>

lemma of_char_digit_char: "d < 10 \<Longrightarrow> (of_char (digit_char d) :: nat) = 48 + d"
  by (simp add: digit_char_def)

lemma is_digit_digit_char: "d < 10 \<Longrightarrow> is_digit (digit_char d)"
  by (simp add: is_digit_def of_char_digit_char)

lemma digit_val_digit_char: "d < 10 \<Longrightarrow> digit_val (digit_char d) = d"
  by (simp add: digit_val_def of_char_digit_char)

lemma digit_char_less: "a < 10 \<Longrightarrow> b < 10 \<Longrightarrow> digit_char a < digit_char b \<longleftrightarrow> a < b"
  by (simp add: less_char_def of_char_digit_char)

lemma digit_char_eq: "a < 10 \<Longrightarrow> b < 10 \<Longrightarrow> digit_char a = digit_char b \<longleftrightarrow> a = b"
  by (metis digit_val_digit_char)

lemma length_pad [simp]: "length (pad n k) = n"
  by (induction n arbitrary: k) auto

lemma pad_eq_Nil [simp]: "pad n k = [] \<longleftrightarrow> n = 0"
  by (cases n) auto

lemma pad_all_digits: "list_all is_digit (pad n k)"
  by (induction n arbitrary: k) (auto simp: is_digit_digit_char)

lemma foldl_pad: "k < 10 ^ n \<Longrightarrow> foldl (\<lambda>a c. 10 * a + digit_val c) 0 (pad n k) = k"
proof (induction n arbitrary: k)
  case 0
  then show ?case by simp
next
  case (Suc n)
  then have "k div 10 < 10 ^ n" by (simp add: less_mult_imp_div_less mult.commute)
  with Suc.IH have "foldl (\<lambda>a c. 10 * a + digit_val c) 0 (pad n (k div 10)) = k div 10" by blast
  then show ?case by (simp add: digit_val_digit_char)
qed

lemma num_pad: "0 < n \<Longrightarrow> k < 10 ^ n \<Longrightarrow> num (pad n k) = Some k"
  by (simp add: num_def pad_all_digits foldl_pad)

lemma take_num_pad: "0 < n \<Longrightarrow> k < 10 ^ n \<Longrightarrow> take_num n (pad n k @ r) = Some (k, r)"
  by (simp add: take_num_def num_pad)

lemma expect_Cons [simp]: "expect c (c # r) = Some r"
  by (simp add: expect_def)

subsection \<open>Parsing what isoformat wrote\<close>

lemma parse_fraction_format:
  "us < 1000000 \<Longrightarrow>
   parse_fraction (format_fraction us @ format_offset tz) = Some (us, format_offset tz)"
  using take_num_pad [of 6 us "format_offset tz"]
  by (cases tz)
    (auto simp: parse_fraction_def format_fraction_def format_offset_def split: list.splits)

lemma parse_offset_format:
  assumes "case tz of None \<Rightarrow> True | Some off \<Rightarrow> - 1440 < off \<and> off < 1440"
  shows "parse_offset (format_offset tz) = Some tz"
proof (cases tz)
  case None
  then show ?thesis by (simp add: parse_offset_def format_offset_def)
next
  case (Some off)
  define a where "a = nat \<bar>off\<bar>"
  have a: "a < 1440" using assms Some unfolding a_def by auto
  have h: "a div 60 < 10 ^ 2" "a mod 60 < 10 ^ 2" using a by auto
  have recompose: "a div 60 * 60 + a mod 60 = a" by simp
  have sgn: "off < 0 \<Longrightarrow> - int a = off" "\<not> off < 0 \<Longrightarrow> int a = off"
    by (auto simp: a_def)
  have p1: "take_num 2 (pad 2 (a div 60) @ CHR '':'' # pad 2 (a mod 60)) =
            Some (a div 60, CHR '':'' # pad 2 (a mod 60))"
    by (rule take_num_pad [OF _ h(1)]) simp
  have p2: "take_num 2 (pad 2 (a mod 60)) = Some (a mod 60, [])"
    using take_num_pad [OF _ h(2), of "[]"] by simp
  show ?thesis
    using a sgn
    by (simp add: Some parse_offset_def format_offset_def a_def [symmetric] p1 p2 recompose
          del: pad.simps)
qed

lemma parse_isoformat_isoformat:
  assumes "valid_datetime t"
  shows "parse_isoformat (isoformat t) = Some t"
proof -
  have b: "year t < 10000" "month t < 100" "day t < 100" "hour t < 100"
    "minute t < 100" "second t < 100" "microsecond t < 1000000"
    using assms by (auto simp: valid_datetime_def days_in_month_def split: if_splits)
  have tz: "case utcoffset t of None \<Rightarrow> True | Some off \<Rightarrow> - 1440 < off \<and> off < 1440"
    using assms by (simp add: valid_datetime_def)
  have same: "\<lparr>year = year t, month = month t, day = day t, hour = hour t,
      minute = minute t, second = second t, microsecond = microsecond t,
      utcoffset = utcoffset t\<rparr> = t"
    by simp
  show ?thesis
    unfolding parse_isoformat_def isoformat_def
    using assms
    by (simp add: take_num_pad b parse_fraction_format parse_offset_format [OF tz] Let_def same
          del: pad.simps)
qed

lemma fromisoformat_isoformat: "valid_datetime t \<Longrightarrow> fromisoformat (isoformat t) = Inr t"
  by (simp add: fromisoformat_def parse_isoformat_isoformat)

subsection \<open>Fresh tokens\<close>

lemma str_nat_value: "foldl (\<lambda>a c. 10 * a + digit_val c) 0 (str_nat n) = n"
proof (induction n rule: str_nat.induct)
  case (1 n)
  show ?case
  proof (cases "n < 10")
    case True
    then show ?thesis by (subst str_nat.simps) (simp add: digit_val_digit_char)
  next
    case False
    with 1 show ?thesis by (subst str_nat.simps) (simp add: digit_val_digit_char)
  qed
qed

lemma str_nat_inj: "str_nat m = str_nat n \<longleftrightarrow> m = n"
  using str_nat_value by metis

subsection \<open>The order of ISO strings\<close>

text \<open>Lexicographic order on strings of equal length, piece by piece.\<close>

lemma append_less_iff:
  fixes a b x y :: string
  assumes "length a = length b"
  shows "a @ x < b @ y \<longleftrightarrow> a < b \<or> (a = b \<and> x < y)"
  using assms by (induction a b rule: list_induct2) auto

lemma decimal_step_less:
  fixes a b r s :: nat
  assumes "r < 10" "s < 10"
  shows "10 * a + r < 10 * b + s \<longleftrightarrow> a < b \<or> (a = b \<and> r < s)"
  using assms by linarith

lemma split_decimal_less:
  fixes j k :: nat
  shows "j < k \<longleftrightarrow> j div 10 < k div 10 \<or> (j div 10 = k div 10 \<and> j mod 10 < k mod 10)"
proof -
  have "j < k \<longleftrightarrow> 10 * (j div 10) + j mod 10 < 10 * (k div 10) + k mod 10"
    by simp
  also have "\<dots> \<longleftrightarrow> j div 10 < k div 10 \<or> (j div 10 = k div 10 \<and> j mod 10 < k mod 10)"
    by (rule decimal_step_less) simp_all
  finally show ?thesis .
qed

lemma pad_less: "j < 10 ^ n \<Longrightarrow> k < 10 ^ n \<Longrightarrow> pad n j < pad n k \<longleftrightarrow> j < k"
proof (induction n arbitrary: j k)
  case 0
  then show ?case by simp
next
  case (Suc n)
  have d: "j div 10 < 10 ^ n" "k div 10 < 10 ^ n"
    using Suc.prems by (simp_all add: less_mult_imp_div_less mult.commute)
  have eq: "pad n (j div 10) = pad n (k div 10) \<longleftrightarrow> j div 10 = k div 10"
    using foldl_pad [OF d(1)] foldl_pad [OF d(2)] by metis
  show ?case
    using Suc.IH [OF d] eq split_decimal_less [of j k]
    by (simp add: append_less_iff digit_char_less)
qed

lemma pad_eq: "j < 10 ^ n \<Longrightarrow> k < 10 ^ n \<Longrightarrow> pad n j = pad n k \<longleftrightarrow> j = k"
  using foldl_pad by metis

lemma utc_offset_text: "format_offset (Some 0) = ''+00:00''"
  by code_simp

lemma fraction_less:
  assumes "a < 1000000" "b < 1000000"
  shows "format_fraction a @ ''+00:00'' < format_fraction b @ ''+00:00'' \<longleftrightarrow> a < b"
proof -
  have p: "a < 10 ^ 6" "b < 10 ^ 6" using assms by simp_all
  show ?thesis
    using pad_less [OF p] pad_eq [OF p]
    by (auto simp: format_fraction_def append_less_iff simp del: pad.simps)
qed

lemma piece_less:
  fixes x y :: string and p q :: "'a::order"
  assumes "x < y \<longleftrightarrow> p < q" "x = y \<longleftrightarrow> p = q" "j < 10 ^ n" "k < 10 ^ n"
  shows "pad n j @ c # x < pad n k @ c # y \<longleftrightarrow> (j, p) < (k, q)"
    and "pad n j @ c # x = pad n k @ c # y \<longleftrightarrow> (j, p) = (k, q)"
proof -
  have "pad n j @ c # x < pad n k @ c # y \<longleftrightarrow>
        pad n j < pad n k \<or> (pad n j = pad n k \<and> c # x < c # y)"
    by (rule append_less_iff) simp
  also have "\<dots> \<longleftrightarrow> j < k \<or> (j = k \<and> p < q)"
    by (simp only: pad_less [OF assms(3,4)] pad_eq [OF assms(3,4)] Cons_less_Cons assms(1)) simp
  also have "\<dots> \<longleftrightarrow> (j, p) < (k, q)"
    by (simp add: less_prod_def')
  finally show "pad n j @ c # x < pad n k @ c # y \<longleftrightarrow> (j, p) < (k, q)" .
  have "pad n j @ c # x = pad n k @ c # y \<longleftrightarrow> pad n j = pad n k \<and> c # x = c # y"
    by (rule append_eq_append_conv) simp
  also have "\<dots> \<longleftrightarrow> j = k \<and> p = q"
    by (simp only: pad_eq [OF assms(3,4)] list.inject assms(2)) simp
  finally show "pad n j @ c # x = pad n k @ c # y \<longleftrightarrow> (j, p) = (k, q)"
    by simp
qed

lemma fraction_eq:
  assumes "a < 1000000" "b < 1000000"
  shows "format_fraction a @ ''+00:00'' = format_fraction b @ ''+00:00'' \<longleftrightarrow> a = b"
proof -
  have p: "a < 10 ^ 6" "b < 10 ^ 6" using assms by simp_all
  show ?thesis
    using pad_eq [OF p]
    by (auto simp: format_fraction_def simp del: pad.simps)
qed

lemma seconds_less:
  assumes "a < 10 ^ 2" "b < 10 ^ 2" "u < 1000000" "v < 1000000"
  shows "pad 2 a @ format_fraction u @ ''+00:00'' < pad 2 b @ format_fraction v @ ''+00:00''
           \<longleftrightarrow> (a, u) < (b, v)"
    and "pad 2 a @ format_fraction u @ ''+00:00'' = pad 2 b @ format_fraction v @ ''+00:00''
           \<longleftrightarrow> (a, u) = (b, v)"
  using pad_less [OF assms(1,2)] pad_eq [OF assms(1,2)] fraction_less [OF assms(3,4)]
    fraction_eq [OF assms(3,4)]
  by (auto simp: append_less_iff less_prod_def' simp del: pad.simps)

lemma isoformat_utc_shape:
  "utc_datetime t \<Longrightarrow>
   isoformat t =
     pad 4 (year t) @ CHR ''-'' # pad 2 (month t) @ CHR ''-'' # pad 2 (day t) @ CHR ''T'' #
     pad 2 (hour t) @ CHR '':'' # pad 2 (minute t) @ CHR '':'' #
     pad 2 (second t) @ format_fraction (microsecond t) @ ''+00:00''"
  by (simp add: isoformat_def utc_datetime_def utc_offset_text del: pad.simps)

lemma utc_datetime_bounds:
  assumes "utc_datetime t"
  shows "year t < 10 ^ 4" "month t < 10 ^ 2" "day t < 10 ^ 2" "hour t < 10 ^ 2"
    "minute t < 10 ^ 2" "second t < 10 ^ 2" "microsecond t < 1000000"
  using assms
  by (auto simp: utc_datetime_def valid_datetime_def days_in_month_def split: if_splits)

lemma isoformat_less:
  assumes "utc_datetime s" "utc_datetime t"
  shows "isoformat s < isoformat t \<longleftrightarrow> datetime_key s < datetime_key t"
proof -
  note vs = utc_datetime_bounds [OF assms(1)] and vt = utc_datetime_bounds [OF assms(2)]
  note s6 = seconds_less [OF vs(6) vt(6) vs(7) vt(7)]
  note s5 = piece_less [OF s6 vs(5) vt(5), of "CHR '':''"]
  note s4 = piece_less [OF s5 vs(4) vt(4), of "CHR '':''"]
  note s3 = piece_less [OF s4 vs(3) vt(3), of "CHR ''T''"]
  note s2 = piece_less [OF s3 vs(2) vt(2), of "CHR ''-''"]
  note s1 = piece_less [OF s2 vs(1) vt(1), of "CHR ''-''"]
  show ?thesis
    unfolding isoformat_utc_shape [OF assms(1)] isoformat_utc_shape [OF assms(2)] datetime_key_def
    by (rule s1(1))
qed

lemma isoformat_le:
  assumes "utc_datetime s" "utc_datetime t"
  shows "isoformat s \<le> isoformat t \<longleftrightarrow> datetime_key s \<le> datetime_key t"
proof -
  have "isoformat s \<le> isoformat t \<longleftrightarrow> \<not> isoformat t < isoformat s"
    by (rule linorder_not_less [symmetric])
  also have "\<dots> \<longleftrightarrow> \<not> datetime_key t < datetime_key s"
    by (simp only: isoformat_less [OF assms(2,1)])
  also have "\<dots> \<longleftrightarrow> datetime_key s \<le> datetime_key t"
    by (rule linorder_not_less)
  finally show ?thesis .
qed


section \<open>The storage codec\<close>

lemma prepare_twice:
  "prepare_for_mongo (prepare_for_mongo v) = prepare_for_mongo v"
  "prepare_for_mongo_items (prepare_for_mongo_items kvs) = prepare_for_mongo_items kvs"
  by (induction v and kvs rule: prepare_for_mongo_prepare_for_mongo_items.induct) simp_all

lemma prepare_keys: "map fst (prepare_for_mongo_items kvs) = map fst kvs"
proof (induction kvs)
  case Nil
  then show ?case by simp
next
  case (Cons a kvs)
  obtain k v where a: "a = (k, v)" by (cases a)
  from Cons show ?case unfolding a by (cases v) simp_all
qed

lemma prepare_other_values:
  "list_all2 (\<lambda>x y. is_datetime x \<or> is_dict x \<or> y = x)
     (map snd kvs) (map snd (prepare_for_mongo_items kvs))"
proof (induction kvs)
  case Nil
  then show ?case by simp
next
  case (Cons a kvs)
  obtain k v where a: "a = (k, v)" by (cases a)
  from Cons show ?case unfolding a by (cases v) (simp_all add: is_datetime_def is_dict_def)
qed

text \<open>
  C10. Preparing a value twice gives what preparing it once gives: the first pass has
  replaced every datetime by a string, which a later pass leaves alone. The keys of a
  dict keep their order, and every value that is neither a datetime nor a dict is kept.
\<close>

theorem prepare_for_mongo_idempotent:
  "prepare_for_mongo (prepare_for_mongo v) = prepare_for_mongo v \<and>
   map fst (dict_of (prepare_for_mongo (PDict kvs))) = map fst kvs \<and>
   list_all2 (\<lambda>x y. is_datetime x \<or> is_dict x \<or> y = x)
     (map snd kvs) (map snd (dict_of (prepare_for_mongo (PDict kvs))))"
  by (simp add: prepare_twice prepare_keys prepare_other_values dict_of_def)


lemma prepare_User_dict:
  "dict_of (prepare_for_mongo (PDict (User_dict u))) =
     [(''id'', PStr (User.id u)), (''first_name'', PStr (User.first_name u)),
      (''username'', opt_str (User.username u)), (''phone'', opt_str (User.phone u)),
      (''chat_id'', PStr (User.chat_id u)), (''created_at'', PStr (isoformat (User.created_at u)))]"
  by (cases "User.username u"; cases "User.phone u") (simp_all add: User_dict_def dict_of_def opt_str_def)

lemma prepare_ChatMessage_dict:
  "dict_of (prepare_for_mongo (PDict (ChatMessage_dict m))) =
     [(''id'', PStr (ChatMessage.id m)), (''user_id'', PStr (ChatMessage.user_id m)),
      (''message'', PStr (ChatMessage.message m)), (''response'', PStr (ChatMessage.response m)),
      (''timestamp'', PStr (isoformat (ChatMessage.timestamp m)))]"
  by (simp add: ChatMessage_dict_def dict_of_def)

lemma prepare_FileMetadata_dict:
  "dict_of (prepare_for_mongo (PDict (FileMetadata_dict f))) =
     [(''id'', PStr (FileMetadata.id f)), (''user_id'', PStr (FileMetadata.user_id f)),
      (''filename'', PStr (FileMetadata.filename f)),
      (''description'', PStr (FileMetadata.description f)),
      (''file_path'', PStr (FileMetadata.file_path f)),
      (''file_type'', PStr (FileMetadata.file_type f)),
      (''uploaded_at'', PStr (isoformat (FileMetadata.uploaded_at f)))]"
  by (simp add: FileMetadata_dict_def dict_of_def)

lemma prepare_SearchResult_dict:
  "dict_of (prepare_for_mongo (PDict (SearchResult_dict r))) =
     [(''id'', PStr (SearchResult.id r)), (''user_id'', PStr (SearchResult.user_id r)),
      (''query'', PStr (SearchResult.query r)), (''summary'', PStr (SearchResult.summary r)),
      (''timestamp'', PStr (isoformat (SearchResult.timestamp r)))]"
  by (simp add: SearchResult_dict_def dict_of_def)

lemma revive_User:
  "valid_datetime (User.created_at u) \<Longrightarrow>
   revive ''created_at'' (dict_of (prepare_for_mongo (PDict (User_dict u)))) = Inr (User_dict u)"
  unfolding prepare_User_dict
  by (simp add: revive_def fromisoformat_isoformat User_dict_def)

lemma revive_ChatMessage:
  "valid_datetime (ChatMessage.timestamp m) \<Longrightarrow>
   revive ''timestamp'' (dict_of (prepare_for_mongo (PDict (ChatMessage_dict m)))) =
     Inr (ChatMessage_dict m)"
  unfolding prepare_ChatMessage_dict
  by (simp add: revive_def fromisoformat_isoformat ChatMessage_dict_def)

lemma revive_FileMetadata:
  "valid_datetime (FileMetadata.uploaded_at f) \<Longrightarrow>
   revive ''uploaded_at'' (dict_of (prepare_for_mongo (PDict (FileMetadata_dict f)))) =
     Inr (FileMetadata_dict f)"
  unfolding prepare_FileMetadata_dict
  by (simp add: revive_def fromisoformat_isoformat FileMetadata_dict_def)

lemma revive_SearchResult:
  "valid_datetime (SearchResult.timestamp r) \<Longrightarrow>
   revive ''timestamp'' (dict_of (prepare_for_mongo (PDict (SearchResult_dict r)))) =
     Inr (SearchResult_dict r)"
  unfolding prepare_SearchResult_dict
  by (simp add: revive_def fromisoformat_isoformat SearchResult_dict_def)

lemma revive_with_oid:
  "k \<noteq> ''_id'' \<Longrightarrow> revive k d = Inr d' \<Longrightarrow> revive k (with_oid n d) = Inr (with_oid n d')"
  by (auto simp: revive_def with_oid_def split: option.splits pyval.splits sum.splits)

lemma mk_User_dict: "mk_User e (User_dict u) w = (Inr u, w)"
  by (cases "User.username u"; cases "User.phone u")
    (simp_all add: mk_User_def User_dict_def id_field_def str_field_def opt_str_field_def
      datetime_field_def validated_def opt_str_def)

lemma mk_ChatMessage_dict: "mk_ChatMessage e (ChatMessage_dict m) w = (Inr m, w)"
  by (simp add: mk_ChatMessage_def ChatMessage_dict_def id_field_def str_field_def
      datetime_field_def validated_def)

lemma mk_FileMetadata_dict: "mk_FileMetadata e (FileMetadata_dict f) w = (Inr f, w)"
  by (simp add: mk_FileMetadata_def FileMetadata_dict_def id_field_def str_field_def
      datetime_field_def validated_def)

lemma mk_SearchResult_dict: "mk_SearchResult e (SearchResult_dict r) w = (Inr r, w)"
  by (simp add: mk_SearchResult_def SearchResult_dict_def id_field_def str_field_def
      datetime_field_def validated_def)

lemma stored_timestamp:
  "map_of (dict_of (prepare_for_mongo (PDict (User_dict u)))) ''created_at'' =
     Some (PStr (isoformat (User.created_at u)))"
  "map_of (dict_of (prepare_for_mongo (PDict (ChatMessage_dict m)))) ''timestamp'' =
     Some (PStr (isoformat (ChatMessage.timestamp m)))"
  "map_of (dict_of (prepare_for_mongo (PDict (FileMetadata_dict f)))) ''uploaded_at'' =
     Some (PStr (isoformat (FileMetadata.uploaded_at f)))"
  "map_of (dict_of (prepare_for_mongo (PDict (SearchResult_dict r)))) ''timestamp'' =
     Some (PStr (isoformat (SearchResult.timestamp r)))"
  unfolding prepare_User_dict prepare_ChatMessage_dict prepare_FileMetadata_dict
    prepare_SearchResult_dict
  by simp_all

lemma decode_User_encoded:
  "valid_datetime (User.created_at u) \<Longrightarrow>
   decode_User e (dict_of (prepare_for_mongo (PDict (User_dict u)))) w = (Inr u, w)"
  unfolding decode_User_def by (simp only: revive_User sum.case mk_User_dict)

lemma decode_ChatMessage_encoded:
  "valid_datetime (ChatMessage.timestamp m) \<Longrightarrow>
   decode_ChatMessage e (dict_of (prepare_for_mongo (PDict (ChatMessage_dict m)))) w = (Inr m, w)"
  unfolding decode_ChatMessage_def by (simp only: revive_ChatMessage sum.case mk_ChatMessage_dict)

lemma decode_FileMetadata_encoded:
  "valid_datetime (FileMetadata.uploaded_at f) \<Longrightarrow>
   decode_FileMetadata e (dict_of (prepare_for_mongo (PDict (FileMetadata_dict f)))) w = (Inr f, w)"
  unfolding decode_FileMetadata_def
  by (simp only: revive_FileMetadata sum.case mk_FileMetadata_dict)

lemma decode_SearchResult_encoded:
  "valid_datetime (SearchResult.timestamp r) \<Longrightarrow>
   decode_SearchResult e (dict_of (prepare_for_mongo (PDict (SearchResult_dict r)))) w = (Inr r, w)"
  unfolding decode_SearchResult_def
  by (simp only: revive_SearchResult sum.case mk_SearchResult_dict)

text \<open>
  C1. For a record of each of the four kinds, decoding its encoded storage form gives the
  record back, step by step: \<open>prepare_for_mongo\<close> on the record's field dictionary stores
  the ISO string of the timestamp under the timestamp key; \<open>fromisoformat\<close> parses that
  string back to the timestamp; the read statement puts the parsed value under the key
  again, which gives the record's own field dictionary; the model constructor builds the
  original record from it and leaves the world alone.
\<close>

theorem decode_encode:
  assumes "valid_datetime (User.created_at u)" "valid_datetime (ChatMessage.timestamp m)"
    "valid_datetime (FileMetadata.uploaded_at f)" "valid_datetime (SearchResult.timestamp r)"
  shows "map_of (dict_of (prepare_for_mongo (PDict (User_dict u)))) ''created_at'' =
      Some (PStr (isoformat (User.created_at u))) \<and>
    fromisoformat (isoformat (User.created_at u)) = Inr (User.created_at u) \<and>
    revive ''created_at'' (dict_of (prepare_for_mongo (PDict (User_dict u)))) =
      Inr (User_dict u) \<and>
    mk_User e (User_dict u) w = (Inr u, w) \<and>
    decode_User e (dict_of (prepare_for_mongo (PDict (User_dict u)))) w =
      (Inr u, w) \<and>
    map_of (dict_of (prepare_for_mongo (PDict (ChatMessage_dict m)))) ''timestamp'' =
      Some (PStr (isoformat (ChatMessage.timestamp m))) \<and>
    fromisoformat (isoformat (ChatMessage.timestamp m)) = Inr (ChatMessage.timestamp m) \<and>
    revive ''timestamp'' (dict_of (prepare_for_mongo (PDict (ChatMessage_dict m)))) =
      Inr (ChatMessage_dict m) \<and>
    mk_ChatMessage e (ChatMessage_dict m) w = (Inr m, w) \<and>
    decode_ChatMessage e (dict_of (prepare_for_mongo (PDict (ChatMessage_dict m)))) w =
      (Inr m, w) \<and>
    map_of (dict_of (prepare_for_mongo (PDict (FileMetadata_dict f)))) ''uploaded_at'' =
      Some (PStr (isoformat (FileMetadata.uploaded_at f))) \<and>
    fromisoformat (isoformat (FileMetadata.uploaded_at f)) = Inr (FileMetadata.uploaded_at f) \<and>
    revive ''uploaded_at'' (dict_of (prepare_for_mongo (PDict (FileMetadata_dict f)))) =
      Inr (FileMetadata_dict f) \<and>
    mk_FileMetadata e (FileMetadata_dict f) w = (Inr f, w) \<and>
    decode_FileMetadata e (dict_of (prepare_for_mongo (PDict (FileMetadata_dict f)))) w =
      (Inr f, w) \<and>
    map_of (dict_of (prepare_for_mongo (PDict (SearchResult_dict r)))) ''timestamp'' =
      Some (PStr (isoformat (SearchResult.timestamp r))) \<and>
    fromisoformat (isoformat (SearchResult.timestamp r)) = Inr (SearchResult.timestamp r) \<and>
    revive ''timestamp'' (dict_of (prepare_for_mongo (PDict (SearchResult_dict r)))) =
      Inr (SearchResult_dict r) \<and>
    mk_SearchResult e (SearchResult_dict r) w = (Inr r, w) \<and>
    decode_SearchResult e (dict_of (prepare_for_mongo (PDict (SearchResult_dict r)))) w =
      (Inr r, w)"
  by (intro conjI stored_timestamp fromisoformat_isoformat assms
      revive_User revive_ChatMessage revive_FileMetadata revive_SearchResult
      mk_User_dict mk_ChatMessage_dict mk_FileMetadata_dict mk_SearchResult_dict
      decode_User_encoded decode_ChatMessage_encoded decode_FileMetadata_encoded
      decode_SearchResult_encoded)

lemma valid_sample_time: "valid_datetime sample_time"
  by (simp add: valid_datetime_def sample_time_def days_in_month_def is_leap_def)

theorem decode_encode_witness:
  "valid_datetime (User.created_at sample_user) \<and>
   valid_datetime (ChatMessage.timestamp sample_chat) \<and>
   valid_datetime (FileMetadata.uploaded_at sample_file) \<and>
   valid_datetime (SearchResult.timestamp sample_search) \<and>
   map_of (dict_of (prepare_for_mongo (PDict (User_dict sample_user)))) ''created_at'' =
      Some (PStr (isoformat (User.created_at sample_user))) \<and>
   fromisoformat (isoformat (User.created_at sample_user)) = Inr (User.created_at sample_user) \<and>
   revive ''created_at'' (dict_of (prepare_for_mongo (PDict (User_dict sample_user)))) =
      Inr (User_dict sample_user) \<and>
   mk_User sample_env (User_dict sample_user) sample_world = (Inr sample_user, sample_world) \<and>
   decode_User sample_env (dict_of (prepare_for_mongo (PDict (User_dict sample_user)))) sample_world =
      (Inr sample_user, sample_world) \<and>
   map_of (dict_of (prepare_for_mongo (PDict (ChatMessage_dict sample_chat)))) ''timestamp'' =
      Some (PStr (isoformat (ChatMessage.timestamp sample_chat))) \<and>
   fromisoformat (isoformat (ChatMessage.timestamp sample_chat)) = Inr (ChatMessage.timestamp sample_chat) \<and>
   revive ''timestamp'' (dict_of (prepare_for_mongo (PDict (ChatMessage_dict sample_chat)))) =
      Inr (ChatMessage_dict sample_chat) \<and>
   mk_ChatMessage sample_env (ChatMessage_dict sample_chat) sample_world = (Inr sample_chat, sample_world) \<and>
   decode_ChatMessage sample_env (dict_of (prepare_for_mongo (PDict (ChatMessage_dict sample_chat)))) sample_world =
      (Inr sample_chat, sample_world) \<and>
   map_of (dict_of (prepare_for_mongo (PDict (FileMetadata_dict sample_file)))) ''uploaded_at'' =
      Some (PStr (isoformat (FileMetadata.uploaded_at sample_file))) \<and>
   fromisoformat (isoformat (FileMetadata.uploaded_at sample_file)) = Inr (FileMetadata.uploaded_at sample_file) \<and>
   revive ''uploaded_at'' (dict_of (prepare_for_mongo (PDict (FileMetadata_dict sample_file)))) =
      Inr (FileMetadata_dict sample_file) \<and>
   mk_FileMetadata sample_env (FileMetadata_dict sample_file) sample_world = (Inr sample_file, sample_world) \<and>
   decode_FileMetadata sample_env (dict_of (prepare_for_mongo (PDict (FileMetadata_dict sample_file)))) sample_world =
      (Inr sample_file, sample_world) \<and>
   map_of (dict_of (prepare_for_mongo (PDict (SearchResult_dict sample_search)))) ''timestamp'' =
      Some (PStr (isoformat (SearchResult.timestamp sample_search))) \<and>
   fromisoformat (isoformat (SearchResult.timestamp sample_search)) = Inr (SearchResult.timestamp sample_search) \<and>
   revive ''timestamp'' (dict_of (prepare_for_mongo (PDict (SearchResult_dict sample_search)))) =
      Inr (SearchResult_dict sample_search) \<and>
   mk_SearchResult sample_env (SearchResult_dict sample_search) sample_world = (Inr sample_search, sample_world) \<and>
   decode_SearchResult sample_env (dict_of (prepare_for_mongo (PDict (SearchResult_dict sample_search)))) sample_world =
      (Inr sample_search, sample_world)"
proof -
  have u: "valid_datetime (User.created_at sample_user)"
    by (simp add: sample_user_def valid_sample_time)
  have m: "valid_datetime (ChatMessage.timestamp sample_chat)"
    by (simp add: sample_chat_def valid_sample_time)
  have f: "valid_datetime (FileMetadata.uploaded_at sample_file)"
    by (simp add: sample_file_def valid_sample_time)
  have r: "valid_datetime (SearchResult.timestamp sample_search)"
    by (simp add: sample_search_def valid_sample_time)
  show ?thesis
    using u m f r decode_encode [OF u m f r, of sample_env sample_world] by blast
qed

section \<open>What each route does\<close>

lemma sample_world_registered:
  "create_user sample_env sample_signup empty_world = (Inr sample_user, sample_world)"
  by code_simp

lemma mk_ChatMessage_new:
  "mk_ChatMessage e [(''user_id'', PStr u), (''message'', PStr m), (''response'', PStr r)] w =
     (Inr \<lparr>ChatMessage.id = str_nat (uuid_counter w), user_id = u, message = m, response = r,
            timestamp = now e\<rparr>,
      w\<lparr>uuid_counter := Suc (uuid_counter w)\<rparr>)"
  by (simp add: mk_ChatMessage_def id_field_def uuid4_def str_field_def datetime_field_def
      validated_def)

lemma mk_SearchResult_new:
  "mk_SearchResult e [(''user_id'', PStr u), (''query'', PStr q), (''summary'', PStr sm)] w =
     (Inr \<lparr>SearchResult.id = str_nat (uuid_counter w), user_id = u, query = q, summary = sm,
            timestamp = now e\<rparr>,
      w\<lparr>uuid_counter := Suc (uuid_counter w)\<rparr>)"
  by (simp add: mk_SearchResult_def id_field_def uuid4_def str_field_def datetime_field_def
      validated_def)


lemma mk_User_new:
  "mk_User e (UserCreate_dict c) w =
     (Inr \<lparr>User.id = str_nat (uuid_counter w), first_name = UserCreate.first_name c,
            username = UserCreate.username c, phone = UserCreate.phone c,
            chat_id = str_nat (Suc (uuid_counter w)), created_at = now e\<rparr>,
      w\<lparr>uuid_counter := Suc (Suc (uuid_counter w))\<rparr>)"
  by (cases "UserCreate.username c"; cases "UserCreate.phone c")
    (simp_all add: mk_User_def UserCreate_dict_def id_field_def uuid4_def str_field_def
      opt_str_field_def datetime_field_def validated_def opt_str_def)

lemma chat_with_ai_absent:
  "find_one ''id'' (ChatRequest.user_id req) (users w) = None \<Longrightarrow>
   chat_with_ai e req w = (Inl (HTTPException 404 ''User not found''), w)"
  by (simp add: chat_with_ai_def chat_with_ai_body_def reraise_def)

lemma chat_with_ai_failed:
  "find_one ''id'' (ChatRequest.user_id req) (users w) = Some d \<Longrightarrow>
   backend e (get_llm_chat (ChatRequest.user_id req)) (text_message (ChatRequest.message req)) =
     Inl msg \<Longrightarrow>
   chat_with_ai e req w =
     (Inl (HTTPException 500 (''Error processing chat: '' @ msg)),
      w\<lparr>llm_calls := llm_calls w @
          [(get_llm_chat (ChatRequest.user_id req), text_message (ChatRequest.message req))]\<rparr>)"
  by (simp add: chat_with_ai_def chat_with_ai_body_def reraise_def send_message_def)

lemma chat_with_ai_ok:
  "find_one ''id'' (ChatRequest.user_id req) (users w) = Some d \<Longrightarrow>
   backend e (get_llm_chat (ChatRequest.user_id req)) (text_message (ChatRequest.message req)) =
     Inr r \<Longrightarrow>
   chat_with_ai e req w =
     (Inr (new_chat e req r w),
      insert_chat (dict_of (prepare_for_mongo (PDict (ChatMessage_dict (new_chat e req r w)))))
        (w\<lparr>llm_calls := llm_calls w @
            [(get_llm_chat (ChatRequest.user_id req), text_message (ChatRequest.message req))],
          uuid_counter := Suc (uuid_counter w)\<rparr>))"
  by (simp add: chat_with_ai_def chat_with_ai_body_def send_message_def mk_ChatMessage_new
      new_chat_def)

lemma create_user_ok:
  "create_user e c w =
     (Inr (new_user e c w),
      insert_user (dict_of (prepare_for_mongo (PDict (User_dict (new_user e c w)))))
        (w\<lparr>uuid_counter := Suc (Suc (uuid_counter w))\<rparr>))"
  by (simp add: create_user_def mk_User_new new_user_def)

lemma web_search_absent:
  "find_one ''id'' (SearchRequest.user_id req) (users w) = None \<Longrightarrow>
   web_search e req w = (Inl (HTTPException 404 ''User not found''), w)"
  by (simp add: web_search_def web_search_body_def reraise_def)

lemma web_search_failed:
  "find_one ''id'' (SearchRequest.user_id req) (users w) = Some d \<Longrightarrow>
   backend e (get_llm_chat (SearchRequest.user_id req @ ''_search''))
     (text_message (search_prompt (SearchRequest.query req))) = Inl msg \<Longrightarrow>
   web_search e req w =
     (Inl (HTTPException 500 (''Error processing search: '' @ msg)),
      w\<lparr>llm_calls := llm_calls w @
          [(get_llm_chat (SearchRequest.user_id req @ ''_search''),
            text_message (search_prompt (SearchRequest.query req)))]\<rparr>)"
  by (simp add: web_search_def web_search_body_def reraise_def send_message_def)

lemma web_search_ok:
  "find_one ''id'' (SearchRequest.user_id req) (users w) = Some d \<Longrightarrow>
   backend e (get_llm_chat (SearchRequest.user_id req @ ''_search''))
     (text_message (search_prompt (SearchRequest.query req))) = Inr sm \<Longrightarrow>
   web_search e req w =
     (Inr (new_search e req sm w),
      insert_search
        (dict_of (prepare_for_mongo (PDict (SearchResult_dict (new_search e req sm w)))))
        (w\<lparr>llm_calls := llm_calls w @
            [(get_llm_chat (SearchRequest.user_id req @ ''_search''),
              text_message (search_prompt (SearchRequest.query req)))],
          uuid_counter := Suc (uuid_counter w)\<rparr>))"
  by (simp add: web_search_def web_search_body_def send_message_def mk_SearchResult_new
      new_search_def)





lemma upload_absent:
  "find_one ''id'' uid (users w) = None \<Longrightarrow>
   upload_and_analyze_file e uid file w = (Inl (HTTPException 404 ''User not found''), w)"
  by (simp add: upload_and_analyze_file_def upload_and_analyze_file_body_def reraise_def)

lemma upload_rejected:
  assumes "find_one ''id'' uid (users w) = Some d" "content_type file \<notin> Some ` allowed_types"
  shows "upload_and_analyze_file e uid file w =
     (Inl (HTTPException 400 ''Only JPG, PNG, and PDF files are allowed''), w)"
proof (cases "content_type file")
  case None
  then show ?thesis
    using assms(1)
    by (simp add: upload_and_analyze_file_def upload_and_analyze_file_body_def reraise_def)
next
  case (Some ftype)
  with assms(2) have "ftype \<notin> allowed_types" by blast
  then show ?thesis
    using assms(1) Some
    by (simp add: upload_and_analyze_file_def upload_and_analyze_file_body_def reraise_def)
qed






lemma sessions_append:
  "llm_calls w' = llm_calls w @ [(chat, msg)] \<Longrightarrow> sessions w' = sessions w @ [session_id chat]"
  by (simp add: sessions_def)

section \<open>Chat\<close>

lemma sample_user_found:
  "find_one ''id'' ''0'' (users sample_world) = Some (hd (users sample_world))"
  by (simp add: find_one_def sample_world_def)

lemma stranger_not_found: "find_one ''id'' ''nobody'' (users sample_world) = None"
  by (simp add: find_one_def sample_world_def)

text \<open>
  C5. Chat needs the user: when the user is absent the route fails with 404 and the world
  is untouched. When the user exists and the conversational model raises, the route fails
  with 500 under the chat prefix, there is no fallback and the chat history is unchanged:
  only the model call is on record. When the model answers, one ChatMessage holding the
  request text and the answer is built, returned, and appended to the chat history in its
  encoded form.
\<close>

theorem chat_with_ai_cases:
  "(find_one ''id'' (ChatRequest.user_id req) (users w) = None \<longrightarrow>
      chat_with_ai e req w = (Inl (HTTPException 404 ''User not found''), w)) \<and>
   (find_one ''id'' (ChatRequest.user_id req) (users w) = Some d \<and>
    backend e (get_llm_chat (ChatRequest.user_id req)) (text_message (ChatRequest.message req)) =
      Inl msg \<longrightarrow>
      chat_with_ai e req w =
        (Inl (HTTPException 500 (''Error processing chat: '' @ msg)),
         w\<lparr>llm_calls := llm_calls w @
             [(get_llm_chat (ChatRequest.user_id req),
               text_message (ChatRequest.message req))]\<rparr>) \<and>
      chat_history (snd (chat_with_ai e req w)) = chat_history w) \<and>
   (find_one ''id'' (ChatRequest.user_id req) (users w) = Some d \<and>
    backend e (get_llm_chat (ChatRequest.user_id req)) (text_message (ChatRequest.message req)) =
      Inr r \<longrightarrow>
      fst (chat_with_ai e req w) =
        Inr \<lparr>ChatMessage.id = str_nat (uuid_counter w), user_id = ChatRequest.user_id req,
             message = ChatRequest.message req, response = r, timestamp = now e\<rparr> \<and>
      chat_history (snd (chat_with_ai e req w)) =
        chat_history w @
        [[(''_id'', PObjectId (oid_counter w)), (''id'', PStr (str_nat (uuid_counter w))),
          (''user_id'', PStr (ChatRequest.user_id req)),
          (''message'', PStr (ChatRequest.message req)), (''response'', PStr r),
          (''timestamp'', PStr (isoformat (now e)))]])"
proof (intro conjI impI)
  assume "find_one ''id'' (ChatRequest.user_id req) (users w) = None"
  then show "chat_with_ai e req w = (Inl (HTTPException 404 ''User not found''), w)"
    by (rule chat_with_ai_absent)
next
  assume a: "find_one ''id'' (ChatRequest.user_id req) (users w) = Some d \<and>
    backend e (get_llm_chat (ChatRequest.user_id req)) (text_message (ChatRequest.message req)) =
      Inl msg"
  then show f: "chat_with_ai e req w =
        (Inl (HTTPException 500 (''Error processing chat: '' @ msg)),
         w\<lparr>llm_calls := llm_calls w @
             [(get_llm_chat (ChatRequest.user_id req),
               text_message (ChatRequest.message req))]\<rparr>)"
    by (simp only: chat_with_ai_failed)
  show "chat_history (snd (chat_with_ai e req w)) = chat_history w"
    unfolding f by simp
next
  assume a: "find_one ''id'' (ChatRequest.user_id req) (users w) = Some d \<and>
    backend e (get_llm_chat (ChatRequest.user_id req)) (text_message (ChatRequest.message req)) =
      Inr r"
  then have ok: "chat_with_ai e req w =
     (Inr (new_chat e req r w),
      insert_chat (dict_of (prepare_for_mongo (PDict (ChatMessage_dict (new_chat e req r w)))))
        (w\<lparr>llm_calls := llm_calls w @
            [(get_llm_chat (ChatRequest.user_id req), text_message (ChatRequest.message req))],
          uuid_counter := Suc (uuid_counter w)\<rparr>))"
    by (simp only: chat_with_ai_ok)
  show "fst (chat_with_ai e req w) =
        Inr \<lparr>ChatMessage.id = str_nat (uuid_counter w), user_id = ChatRequest.user_id req,
             message = ChatRequest.message req, response = r, timestamp = now e\<rparr>"
    unfolding ok by (simp add: new_chat_def)
  show "chat_history (snd (chat_with_ai e req w)) =
        chat_history w @
        [[(''_id'', PObjectId (oid_counter w)), (''id'', PStr (str_nat (uuid_counter w))),
          (''user_id'', PStr (ChatRequest.user_id req)),
          (''message'', PStr (ChatRequest.message req)), (''response'', PStr r),
          (''timestamp'', PStr (isoformat (now e)))]]"
    unfolding ok prepare_ChatMessage_dict
    by (simp add: insert_chat_def with_oid_def new_chat_def)
qed

theorem chat_with_ai_cases_witness:
  "(find_one ''id'' (ChatRequest.user_id stranger_chat_request) (users sample_world) = None) \<and>
   (chat_with_ai sample_env stranger_chat_request sample_world = (Inl (HTTPException 404 ''User not found''), sample_world)) \<and>
   (find_one ''id'' (ChatRequest.user_id sample_chat_request) (users sample_world) = Some (hd (users sample_world)) \<and>
    backend failing_env (get_llm_chat (ChatRequest.user_id sample_chat_request)) (text_message (ChatRequest.message sample_chat_request)) =
      Inl ''boom'') \<and>
   (chat_with_ai failing_env sample_chat_request sample_world =
      (Inl (HTTPException 500 (''Error processing chat: '' @ ''boom'')),
       sample_world\<lparr>llm_calls := llm_calls sample_world @
           [(get_llm_chat (ChatRequest.user_id sample_chat_request),
             text_message (ChatRequest.message sample_chat_request))]\<rparr>) \<and>
    chat_history (snd (chat_with_ai failing_env sample_chat_request sample_world)) = chat_history sample_world) \<and>
   (find_one ''id'' (ChatRequest.user_id sample_chat_request) (users sample_world) = Some (hd (users sample_world)) \<and>
    backend sample_env (get_llm_chat (ChatRequest.user_id sample_chat_request)) (text_message (ChatRequest.message sample_chat_request)) =
      Inr ''hello'') \<and>
   (fst (chat_with_ai sample_env sample_chat_request sample_world) =
      Inr \<lparr>ChatMessage.id = str_nat (uuid_counter sample_world), user_id = ChatRequest.user_id sample_chat_request,
           message = ChatRequest.message sample_chat_request, response = ''hello'', timestamp = now sample_env\<rparr> \<and>
    chat_history (snd (chat_with_ai sample_env sample_chat_request sample_world)) =
      chat_history sample_world @
      [[(''_id'', PObjectId (oid_counter sample_world)), (''id'', PStr (str_nat (uuid_counter sample_world))),
        (''user_id'', PStr (ChatRequest.user_id sample_chat_request)),
        (''message'', PStr (ChatRequest.message sample_chat_request)), (''response'', PStr ''hello''),
        (''timestamp'', PStr (isoformat (now sample_env)))]])"
proof -
  have h1: "find_one ''id'' (ChatRequest.user_id stranger_chat_request) (users sample_world) = None"
    by (simp add: stranger_chat_request_def stranger_not_found)
  have h2: "find_one ''id'' (ChatRequest.user_id sample_chat_request) (users sample_world) = Some (hd (users sample_world)) \<and>
    backend failing_env (get_llm_chat (ChatRequest.user_id sample_chat_request)) (text_message (ChatRequest.message sample_chat_request)) =
      Inl ''boom''"
    by (simp add: sample_chat_request_def sample_user_found failing_env_def)
  have h3: "find_one ''id'' (ChatRequest.user_id sample_chat_request) (users sample_world) = Some (hd (users sample_world)) \<and>
    backend sample_env (get_llm_chat (ChatRequest.user_id sample_chat_request)) (text_message (ChatRequest.message sample_chat_request)) =
      Inr ''hello''"
    by (simp add: sample_chat_request_def sample_user_found sample_env_def)
  note c = chat_with_ai_cases [where req = stranger_chat_request and w = sample_world
      and e = sample_env]
    chat_with_ai_cases [where req = sample_chat_request and w = sample_world
      and e = failing_env and d = "hd (users sample_world)" and msg = "''boom''"]
    chat_with_ai_cases [where req = sample_chat_request and w = sample_world
      and e = sample_env and d = "hd (users sample_world)" and r = "''hello''"]
  show ?thesis
    using h1 h2 h3 c by blast
qed

section \<open>Search\<close>

text \<open>
  C9. Search needs the user: when the user is absent the route fails with 404 and the
  world is untouched. Otherwise it sends one message to the conversational model under
  the session id made of the user id and the search suffix; the message is the fixed
  template around the raw query (answer as if the web had been searched; key facts,
  current relevance, several perspectives, resources). When the model raises, the route
  fails with 500 under the search prefix and the search results are unchanged. When it
  answers, one SearchResult holding the raw query and the answer is built, returned, and
  appended to the search results in its encoded form.
\<close>

theorem web_search_cases:
  "(find_one ''id'' (SearchRequest.user_id req) (users w) = None \<longrightarrow>
      web_search e req w = (Inl (HTTPException 404 ''User not found''), w)) \<and>
   (find_one ''id'' (SearchRequest.user_id req) (users w) = Some d \<and>
    backend e (get_llm_chat (SearchRequest.user_id req @ ''_search''))
      (text_message (search_prompt (SearchRequest.query req))) = Inl msg \<longrightarrow>
      web_search e req w =
        (Inl (HTTPException 500 (''Error processing search: '' @ msg)),
         w\<lparr>llm_calls := llm_calls w @
             [(get_llm_chat (SearchRequest.user_id req @ ''_search''),
               text_message (search_prompt (SearchRequest.query req)))]\<rparr>) \<and>
      search_results (snd (web_search e req w)) = search_results w) \<and>
   (find_one ''id'' (SearchRequest.user_id req) (users w) = Some d \<and>
    backend e (get_llm_chat (SearchRequest.user_id req @ ''_search''))
      (text_message (search_prompt (SearchRequest.query req))) = Inr sm \<longrightarrow>
      fst (web_search e req w) =
        Inr \<lparr>SearchResult.id = str_nat (uuid_counter w), user_id = SearchRequest.user_id req,
             query = SearchRequest.query req, summary = sm, timestamp = now e\<rparr> \<and>
      search_results (snd (web_search e req w)) =
        search_results w @
        [[(''_id'', PObjectId (oid_counter w)), (''id'', PStr (str_nat (uuid_counter w))),
          (''user_id'', PStr (SearchRequest.user_id req)),
          (''query'', PStr (SearchRequest.query req)), (''summary'', PStr sm),
          (''timestamp'', PStr (isoformat (now e)))]] \<and>
      llm_calls (snd (web_search e req w)) =
        llm_calls w @
        [(get_llm_chat (SearchRequest.user_id req @ ''_search''),
          text_message (search_prompt (SearchRequest.query req)))]) \<and>
   (session_id (get_llm_chat (SearchRequest.user_id req @ ''_search'')) =
      SearchRequest.user_id req @ ''_search'') \<and>
   (text_of (text_message (search_prompt (SearchRequest.query req))) =
      ''Please provide a comprehensive and informative response about: '' @ [CHR 0x22] @
      SearchRequest.query req @ [CHR 0x22, CHR 0x0A, CHR 0x0A] @
      ''Include:'' @ [CHR 0x0A] @
      ''1. Key information and facts'' @ [CHR 0x0A] @
      ''2. Current context and relevance'' @ [CHR 0x0A] @
      ''3. Multiple perspectives if applicable'' @ [CHR 0x0A] @
      ''4. Helpful resources or suggestions'' @ [CHR 0x0A, CHR 0x0A] @
      ''Format your response as if you'' @ [CHR 0x27] @
      ''ve searched the web and are providing a summary of the most relevant and useful information.'')"
proof (intro conjI impI)
  assume "find_one ''id'' (SearchRequest.user_id req) (users w) = None"
  then show "web_search e req w = (Inl (HTTPException 404 ''User not found''), w)"
    by (rule web_search_absent)
next
  assume a: "find_one ''id'' (SearchRequest.user_id req) (users w) = Some d \<and>
    backend e (get_llm_chat (SearchRequest.user_id req @ ''_search''))
      (text_message (search_prompt (SearchRequest.query req))) = Inl msg"
  then show f: "web_search e req w =
      (Inl (HTTPException 500 (''Error processing search: '' @ msg)),
       w\<lparr>llm_calls := llm_calls w @
           [(get_llm_chat (SearchRequest.user_id req @ ''_search''),
             text_message (search_prompt (SearchRequest.query req)))]\<rparr>)"
    by (simp only: web_search_failed)
  show "search_results (snd (web_search e req w)) = search_results w"
    unfolding f by simp
next
  assume a: "find_one ''id'' (SearchRequest.user_id req) (users w) = Some d \<and>
    backend e (get_llm_chat (SearchRequest.user_id req @ ''_search''))
      (text_message (search_prompt (SearchRequest.query req))) = Inr sm"
  then have ok: "web_search e req w =
     (Inr (new_search e req sm w),
      insert_search
        (dict_of (prepare_for_mongo (PDict (SearchResult_dict (new_search e req sm w)))))
        (w\<lparr>llm_calls := llm_calls w @
            [(get_llm_chat (SearchRequest.user_id req @ ''_search''),
              text_message (search_prompt (SearchRequest.query req)))],
          uuid_counter := Suc (uuid_counter w)\<rparr>))"
    by (simp only: web_search_ok)
  show "fst (web_search e req w) =
      Inr \<lparr>SearchResult.id = str_nat (uuid_counter w), user_id = SearchRequest.user_id req,
           query = SearchRequest.query req, summary = sm, timestamp = now e\<rparr>"
    unfolding ok by (simp add: new_search_def)
  show "search_results (snd (web_search e req w)) =
      search_results w @
      [[(''_id'', PObjectId (oid_counter w)), (''id'', PStr (str_nat (uuid_counter w))),
        (''user_id'', PStr (SearchRequest.user_id req)),
        (''query'', PStr (SearchRequest.query req)), (''summary'', PStr sm),
        (''timestamp'', PStr (isoformat (now e)))]]"
    unfolding ok prepare_SearchResult_dict
    by (simp add: insert_search_def with_oid_def new_search_def)
  show "llm_calls (snd (web_search e req w)) =
      llm_calls w @
      [(get_llm_chat (SearchRequest.user_id req @ ''_search''),
        text_message (search_prompt (SearchRequest.query req)))]"
    unfolding ok by (simp add: insert_search_def)
next
  show "session_id (get_llm_chat (SearchRequest.user_id req @ ''_search'')) =
      SearchRequest.user_id req @ ''_search''"
    by (simp add: get_llm_chat_def)
next
  show "text_of (text_message (search_prompt (SearchRequest.query req))) =
      ''Please provide a comprehensive and informative response about: '' @ [CHR 0x22] @
      SearchRequest.query req @ [CHR 0x22, CHR 0x0A, CHR 0x0A] @
      ''Include:'' @ [CHR 0x0A] @
      ''1. Key information and facts'' @ [CHR 0x0A] @
      ''2. Current context and relevance'' @ [CHR 0x0A] @
      ''3. Multiple perspectives if applicable'' @ [CHR 0x0A] @
      ''4. Helpful resources or suggestions'' @ [CHR 0x0A, CHR 0x0A] @
      ''Format your response as if you'' @ [CHR 0x27] @
      ''ve searched the web and are providing a summary of the most relevant and useful information.''"
    by (simp add: text_message_def search_prompt_def)
qed

theorem web_search_cases_witness:
  "(find_one ''id'' (SearchRequest.user_id stranger_search_request) (users sample_world) = None) \<and>
   (web_search sample_env stranger_search_request sample_world = (Inl (HTTPException 404 ''User not found''), sample_world)) \<and>
   (find_one ''id'' (SearchRequest.user_id sample_search_request) (users sample_world) = Some (hd (users sample_world)) \<and>
    backend failing_env (get_llm_chat (SearchRequest.user_id sample_search_request @ ''_search''))
      (text_message (search_prompt (SearchRequest.query sample_search_request))) = Inl ''boom'') \<and>
   (web_search failing_env sample_search_request sample_world =
      (Inl (HTTPException 500 (''Error processing search: '' @ ''boom'')),
       sample_world\<lparr>llm_calls := llm_calls sample_world @
           [(get_llm_chat (SearchRequest.user_id sample_search_request @ ''_search''),
             text_message (search_prompt (SearchRequest.query sample_search_request)))]\<rparr>) \<and>
    search_results (snd (web_search failing_env sample_search_request sample_world)) = search_results sample_world) \<and>
   (find_one ''id'' (SearchRequest.user_id sample_search_request) (users sample_world) = Some (hd (users sample_world)) \<and>
    backend sample_env (get_llm_chat (SearchRequest.user_id sample_search_request @ ''_search''))
      (text_message (search_prompt (SearchRequest.query sample_search_request))) = Inr ''hello'') \<and>
   (fst (web_search sample_env sample_search_request sample_world) =
      Inr \<lparr>SearchResult.id = str_nat (uuid_counter sample_world), user_id = SearchRequest.user_id sample_search_request,
           query = SearchRequest.query sample_search_request, summary = ''hello'', timestamp = now sample_env\<rparr> \<and>
    search_results (snd (web_search sample_env sample_search_request sample_world)) =
      search_results sample_world @
      [[(''_id'', PObjectId (oid_counter sample_world)), (''id'', PStr (str_nat (uuid_counter sample_world))),
        (''user_id'', PStr (SearchRequest.user_id sample_search_request)),
        (''query'', PStr (SearchRequest.query sample_search_request)), (''summary'', PStr ''hello''),
        (''timestamp'', PStr (isoformat (now sample_env)))]] \<and>
    llm_calls (snd (web_search sample_env sample_search_request sample_world)) =
      llm_calls sample_world @
      [(get_llm_chat (SearchRequest.user_id sample_search_request @ ''_search''),
        text_message (search_prompt (SearchRequest.query sample_search_request)))])"
proof -
  have h1: "find_one ''id'' (SearchRequest.user_id stranger_search_request) (users sample_world) = None"
    by (simp add: stranger_search_request_def stranger_not_found)
  have h2: "find_one ''id'' (SearchRequest.user_id sample_search_request) (users sample_world) = Some (hd (users sample_world)) \<and>
    backend failing_env (get_llm_chat (SearchRequest.user_id sample_search_request @ ''_search''))
      (text_message (search_prompt (SearchRequest.query sample_search_request))) = Inl ''boom''"
    by (simp add: sample_search_request_def sample_user_found failing_env_def)
  have h3: "find_one ''id'' (SearchRequest.user_id sample_search_request) (users sample_world) = Some (hd (users sample_world)) \<and>
    backend sample_env (get_llm_chat (SearchRequest.user_id sample_search_request @ ''_search''))
      (text_message (search_prompt (SearchRequest.query sample_search_request))) = Inr ''hello''"
    by (simp add: sample_search_request_def sample_user_found sample_env_def)
  note c = web_search_cases [where req = stranger_search_request and w = sample_world
      and e = sample_env]
    web_search_cases [where req = sample_search_request and w = sample_world
      and e = failing_env and d = "hd (users sample_world)" and msg = "''boom''"]
    web_search_cases [where req = sample_search_request and w = sample_world
      and e = sample_env and d = "hd (users sample_world)" and sm = "''hello''"]
  show ?thesis
    using h1 h2 h3 c by blast
qed

section \<open>Upload\<close>



text \<open>
  C4, as stated, fails where the user is absent: the user check comes first, so an upload
  of a \<^verbatim>\<open>text/plain\<close> file by an unregistered user is answered 404, not 400.
\<close>

theorem upload_type_gate_counterexample:
  "content_type sample_txt \<notin> Some ` allowed_types \<and>
   fst (upload_and_analyze_file sample_env ''nobody'' sample_txt sample_world) =
     Inl (HTTPException 404 ''User not found'') \<and>
   fst (upload_and_analyze_file sample_env ''nobody'' sample_txt sample_world) \<noteq>
     Inl (HTTPException 400 ''Only JPG, PNG, and PDF files are allowed'')"
proof -
  have t: "content_type sample_txt \<notin> Some ` allowed_types"
    by (auto simp: sample_txt_def allowed_types_def)
  have r: "fst (upload_and_analyze_file sample_env ''nobody'' sample_txt sample_world) =
     Inl (HTTPException 404 ''User not found'')"
    by (simp add: upload_absent [OF stranger_not_found])
  show ?thesis
    using t r by simp
qed

text \<open>
  C4, amended. For every upload whose declared content type is outside the allowed set
  (or missing), the world is left as it was: no FileMetadata is persisted and no bytes
  are written. When the user exists the upload fails with 400; when the user is absent
  it fails with 404.
\<close>

theorem upload_type_gate:
  "(content_type upl \<notin> Some ` allowed_types \<longrightarrow>
      snd (upload_and_analyze_file e uid upl w) = w) \<and>
   (content_type upl \<notin> Some ` allowed_types \<and> find_one ''id'' uid (users w) = Some d \<longrightarrow>
      fst (upload_and_analyze_file e uid upl w) =
        Inl (HTTPException 400 ''Only JPG, PNG, and PDF files are allowed'')) \<and>
   (content_type upl \<notin> Some ` allowed_types \<and> find_one ''id'' uid (users w) = None \<longrightarrow>
      fst (upload_and_analyze_file e uid upl w) = Inl (HTTPException 404 ''User not found''))"
proof -
  have known: "upload_and_analyze_file e uid upl w =
      (Inl (HTTPException 400 ''Only JPG, PNG, and PDF files are allowed''), w)"
    if "content_type upl \<notin> Some ` allowed_types" "find_one ''id'' uid (users w) = Some x"
    for x
    using that(2,1) by (rule upload_rejected)
  have unknown: "upload_and_analyze_file e uid upl w =
      (Inl (HTTPException 404 ''User not found''), w)"
    if "find_one ''id'' uid (users w) = None"
    using that by (rule upload_absent)
  show ?thesis
  proof (cases "find_one ''id'' uid (users w)")
    case None
    then show ?thesis using unknown by simp
  next
    case (Some x)
    then show ?thesis using known [of x] by auto
  qed
qed

theorem upload_type_gate_witness:
  "(content_type sample_txt \<notin> Some ` allowed_types \<and> find_one ''id'' ''0'' (users sample_world) = Some (hd (users sample_world))) \<and>
   (snd (upload_and_analyze_file sample_env ''0'' sample_txt sample_world) = sample_world) \<and>
   (fst (upload_and_analyze_file sample_env ''0'' sample_txt sample_world) =
      Inl (HTTPException 400 ''Only JPG, PNG, and PDF files are allowed'')) \<and>
   (content_type sample_txt \<notin> Some ` allowed_types \<and> find_one ''id'' ''nobody'' (users sample_world) = None) \<and>
   (snd (upload_and_analyze_file sample_env ''nobody'' sample_txt sample_world) = sample_world) \<and>
   (fst (upload_and_analyze_file sample_env ''nobody'' sample_txt sample_world) = Inl (HTTPException 404 ''User not found''))"
proof -
  have t: "content_type sample_txt \<notin> Some ` allowed_types"
    by (auto simp: sample_txt_def allowed_types_def)
  have h1: "content_type sample_txt \<notin> Some ` allowed_types \<and> find_one ''id'' ''0'' (users sample_world) = Some (hd (users sample_world))"
    using t by (simp add: sample_user_found)
  have h2: "content_type sample_txt \<notin> Some ` allowed_types \<and> find_one ''id'' ''nobody'' (users sample_world) = None"
    using t by (simp add: stranger_not_found)
  note c = upload_type_gate [where uid = "''0''" and w = sample_world and e = sample_env
      and d = "hd (users sample_world)" and upl = sample_txt]
    upload_type_gate [where uid = "''nobody''" and w = sample_world and e = sample_env
      and upl = sample_txt]
  show ?thesis
    using h1 h2 c by blast
qed




section \<open>Session ids\<close>






end
